theory Spec2Isabelle
  imports Main "HOL-Library.Multiset"
begin

section \<open>Tables\<close>

text \<open>
  The processors of \<^verbatim>\<open>lab_03/processor/dataprocessor.py\<close> work on pandas tables.
  A table is a list of column labels and a list of rows; a cell is \<open>Some v\<close>, or
  \<open>None\<close> where the value is missing (NaN). The values are of one type \<open>'v\<close>; where
  they are compared, for sorting, the type is linearly ordered, so a column that mixes
  values Python cannot compare is outside the model. The row labels of pandas are left
  out: every table that reaches \<open>result\<close> went through
  \<^verbatim>\<open>concat(..., ignore_index=True)\<close>, which throws them away.
\<close>

record 'v DataFrame =
  columns :: "string list"
  rows :: "'v option list list"

datatype error =
    AttributeError
  | KeyError "string list"
  | ValueError
  | InvalidIndexError
  | IndexError

text \<open>Every row of a table has one cell per column.\<close>

definition rectangular :: "'v DataFrame \<Rightarrow> bool" where
  "rectangular df = list_all (\<lambda>r. length r = length (columns df)) (rows df)"

text \<open>The cell of row \<open>r\<close> under label \<open>c\<close> (the first column of that label).\<close>

definition cell :: "string list \<Rightarrow> 'v option list \<Rightarrow> string \<Rightarrow> 'v option" where
  "cell cols r c = (case map_of (zip cols r) c of None \<Rightarrow> None | Some v \<Rightarrow> v)"

definition column_values :: "'v DataFrame \<Rightarrow> string \<Rightarrow> 'v option list" where
  "column_values df c = map (\<lambda>r. cell (columns df) r c) (rows df)"

subsection \<open>The operations of pandas that the processors call\<close>

text \<open>
  Modelled from the spec: \<^verbatim>\<open>DataFrame.drop(labels, axis=1)\<close>, of the table engine that the
  repository imports. It removes every column whose label is listed and raises KeyError,
  with the labels it did not find, when a listed label is not a column.
\<close>

definition DataFrame_drop :: "'v DataFrame \<Rightarrow> string list \<Rightarrow> error + 'v DataFrame" where
  "DataFrame_drop df labels =
     (case filter (\<lambda>l. l \<notin> set (columns df)) labels of
        [] \<Rightarrow> Inr \<lparr>columns = filter (\<lambda>c. c \<notin> set labels) (columns df),
                   rows = map (\<lambda>r. map snd (filter (\<lambda>cv. fst cv \<notin> set labels) (zip (columns df) r)))
                              (rows df)\<rparr>
      | missing \<Rightarrow> Inl (KeyError missing))"

text \<open>
  Modelled from the spec: the row selection of \<^verbatim>\<open>DataFrame.sort_values\<close>. The rows are
  taken in the order of an indexer; a position outside the table raises IndexError.
\<close>

definition take_rows :: "'v DataFrame \<Rightarrow> nat list \<Rightarrow> error + 'v DataFrame" where
  "take_rows df indexer =
     (if list_all (\<lambda>i. i < length (rows df)) indexer
      then Inr \<lparr>columns = columns df, rows = map (\<lambda>i. rows df ! i) indexer\<rparr>
      else Inl IndexError)"

text \<open>
  Modelled from the spec: \<^verbatim>\<open>DataFrame.sort_values(by=[colname], ascending=asc)\<close>. The
  label must be a column (KeyError) and only one column may carry it (ValueError). The
  order of the rows is the indexer that the sorting routine \<open>nargsort\<close> computes from the
  values of the column; the routine is a parameter, because the spec leaves open whether
  the sort is stable.
\<close>

definition sort_values ::
  "(bool \<Rightarrow> 'v option list \<Rightarrow> nat list) \<Rightarrow> 'v DataFrame \<Rightarrow> string \<Rightarrow> bool \<Rightarrow> error + 'v DataFrame" where
  "sort_values nargsort df colname ascending =
     (if colname \<notin> set (columns df) then Inl (KeyError [colname])
      else if count_list (columns df) colname \<noteq> 1 then Inl ValueError
      else take_rows df (nargsort ascending (column_values df colname)))"

text \<open>
  Modelled from the spec: the alignment of a row to other column labels, as
  \<^verbatim>\<open>pandas.concat\<close> does it: the cell of each new label, missing where the row has none.
\<close>

definition reindex :: "string list \<Rightarrow> string list \<Rightarrow> 'v option list \<Rightarrow> 'v option list" where
  "reindex cols new_cols r = map (cell cols r) new_cols"

text \<open>
  Modelled from the spec: \<^verbatim>\<open>pandas.concat(objs, ignore_index=True)\<close> on two tables. Tables
  with the same columns are put one after the other. Otherwise the columns of the result are
  those of the first table followed by the new ones of the second, each row is carried to
  these columns, and labels that repeat raise InvalidIndexError.
\<close>

definition append_frames :: "'v DataFrame \<Rightarrow> 'v DataFrame \<Rightarrow> error + 'v DataFrame" where
  "append_frames a b =
     (if columns a = columns b
      then Inr \<lparr>columns = columns a, rows = rows a @ rows b\<rparr>
      else if distinct (columns a) \<and> distinct (columns b)
      then (let u = columns a @ filter (\<lambda>c. c \<notin> set (columns a)) (columns b)
            in Inr \<lparr>columns = u,
                    rows = map (reindex (columns a) u) (rows a) @ map (reindex (columns b) u) (rows b)\<rparr>)
      else Inl InvalidIndexError)"

text \<open>
  Modelled from the spec: \<^verbatim>\<open>pandas.concat(objs, ignore_index=True)\<close> on a list. The
  entries that are None are dropped, a list of nothing but None raises ValueError, and the
  tables that remain are appended from left to right.
\<close>

fun concat_frames :: "'v DataFrame \<Rightarrow> 'v DataFrame list \<Rightarrow> error + 'v DataFrame" where
  "concat_frames d [] = Inr d"
| "concat_frames d (x # xs) =
     (case append_frames d x of Inl e \<Rightarrow> Inl e | Inr d' \<Rightarrow> concat_frames d' xs)"

definition pandas_concat :: "'v DataFrame option list \<Rightarrow> error + 'v DataFrame" where
  "pandas_concat objs =
     (case List.map_filter (\<lambda>x. x) objs of
        [] \<Rightarrow> Inl ValueError
      | d # ds \<Rightarrow> concat_frames d ds)"

section \<open>The processors\<close>

text \<open>
  \<^verbatim>\<open>DataProcessor.__init__\<close> sets the three attributes; \<^verbatim>\<open>CsvDataProcessor.__init__\<close>
  adds the separator.
\<close>

record ('s, 'v) DataProcessor =
  datasource :: 's
  dataset :: "'v DataFrame option"
  result :: "'v DataFrame option"

record ('s, 'v) CsvDataProcessor = "('s, 'v) DataProcessor" +
  separator :: string

definition DataProcessor_init :: "'s \<Rightarrow> ('s, 'v) DataProcessor" where
  "DataProcessor_init src = \<lparr>datasource = src, dataset = None, result = None\<rparr>"

definition CsvDataProcessor_init :: "'s \<Rightarrow> ('s, 'v) CsvDataProcessor" where
  "CsvDataProcessor_init src = \<lparr>datasource = src, dataset = None, result = None, separator = '';''\<rparr>"

subsection \<open>Shared helpers\<close>

text \<open>
  \<^verbatim>\<open>df.sort_values(...)\<close> and \<^verbatim>\<open>df.drop(...)\<close> are attribute accesses on \<open>df\<close>: on None they
  raise AttributeError.
\<close>

definition sort_data_by_col ::
  "(bool \<Rightarrow> 'v option list \<Rightarrow> nat list) \<Rightarrow> 'v DataFrame option \<Rightarrow> string \<Rightarrow> bool \<Rightarrow> error + 'v DataFrame" where
  "sort_data_by_col nargsort df colname asc =
     (case df of None \<Rightarrow> Inl AttributeError
      | Some d \<Rightarrow> sort_values nargsort d colname asc)"

definition remove_col_by_name :: "'v DataFrame option \<Rightarrow> string list \<Rightarrow> error + 'v DataFrame" where
  "remove_col_by_name df colname =
     (case df of None \<Rightarrow> Inl AttributeError
      | Some d \<Rightarrow> DataFrame_drop d colname)"

text \<open>
  The loop \<^verbatim>\<open>for t in target_values: cleaned_result = self.sort_data_by_col(cleaned_result, t, asc)\<close>
  of the three \<open>run\<close> methods; an exception ends it.
\<close>

fun sort_by_targets ::
  "(bool \<Rightarrow> 'v option list \<Rightarrow> nat list) \<Rightarrow> bool \<Rightarrow> 'v DataFrame \<Rightarrow> string list \<Rightarrow> error + 'v DataFrame" where
  "sort_by_targets nargsort asc cleaned_result [] = Inr cleaned_result"
| "sort_by_targets nargsort asc cleaned_result (t # ts) =
     (case sort_data_by_col nargsort (Some cleaned_result) t asc of
        Inl e \<Rightarrow> Inl e
      | Inr cleaned_result' \<Rightarrow> sort_by_targets nargsort asc cleaned_result' ts)"

subsection \<open>read\<close>

text \<open>
  The parsers \<^verbatim>\<open>pandas.read_csv\<close>, \<^verbatim>\<open>pandas.read_table\<close> and \<^verbatim>\<open>pandas.read_json\<close> are
  parameters: applied to the data source they give a table, or \<open>Inl msg\<close> when they raise
  an exception \<open>e\<close> with \<open>str(e) = msg\<close>. \<open>read\<close> gives the returned value, the lines it
  printed and the processor afterwards.
\<close>

definition CsvDataProcessor_read ::
  "('s \<Rightarrow> string \<Rightarrow> string + 'v DataFrame) \<Rightarrow> ('s, 'v) CsvDataProcessor
     \<Rightarrow> bool \<times> string list \<times> ('s, 'v) CsvDataProcessor" where
  "CsvDataProcessor_read read_csv self =
     (case read_csv (datasource self) (separator self) of
        Inl e \<Rightarrow> (False, [e], self)
      | Inr df \<Rightarrow>
          (let self' = self\<lparr>dataset := Some df\<rparr>;
               col_names = columns df
           in if length col_names < 2 then (False, [], self') else (True, [], self')))"

definition TxtDataProcessor_read ::
  "('s \<Rightarrow> string + 'v DataFrame) \<Rightarrow> ('s, 'v) DataProcessor
     \<Rightarrow> bool \<times> string list \<times> ('s, 'v) DataProcessor" where
  "TxtDataProcessor_read read_table self =
     (case read_table (datasource self) of
        Inl e \<Rightarrow> (False, [e], self)
      | Inr df \<Rightarrow>
          (let self' = self\<lparr>dataset := Some df\<rparr>;
               col_names = columns df
           in if length col_names < 2 then (False, [], self') else (True, [], self')))"

definition JSONDataProcessor_read ::
  "('s \<Rightarrow> string + 'v DataFrame) \<Rightarrow> ('s, 'v) DataProcessor
     \<Rightarrow> bool \<times> string list \<times> ('s, 'v) DataProcessor" where
  "JSONDataProcessor_read read_json self =
     (case read_json (datasource self) of
        Inl e \<Rightarrow> (False, [e], self)
      | Inr df \<Rightarrow>
          (let self' = self\<lparr>dataset := Some df\<rparr>;
               col_names = columns df
           in if length col_names < 2 then (False, [], self') else (True, [], self')))"

subsection \<open>run\<close>

text \<open>
  \<open>run\<close> gives the processor afterwards, or the exception that left the method; the
  assignment to \<open>result\<close> is its last statement, so an exception leaves the processor as
  it was.
\<close>

definition CsvDataProcessor_run ::
  "(bool \<Rightarrow> 'v option list \<Rightarrow> nat list) \<Rightarrow> ('s, 'v) CsvDataProcessor \<Rightarrow> error + ('s, 'v) CsvDataProcessor" where
  "CsvDataProcessor_run nargsort self =
     (case remove_col_by_name (dataset self) [''dateAdded''] of
        Inl e \<Rightarrow> Inl e
      | Inr cleaned_result \<Rightarrow>
          (case sort_by_targets nargsort False cleaned_result [''directedBy'', ''title''] of
             Inl e \<Rightarrow> Inl e
           | Inr cleaned_result' \<Rightarrow>
               (case pandas_concat [result self, Some cleaned_result'] of
                  Inl e \<Rightarrow> Inl e
                | Inr r \<Rightarrow> Inr (self\<lparr>result := Some r\<rparr>))))"

definition TxtDataProcessor_run ::
  "(bool \<Rightarrow> 'v option list \<Rightarrow> nat list) \<Rightarrow> ('s, 'v) DataProcessor \<Rightarrow> error + ('s, 'v) DataProcessor" where
  "TxtDataProcessor_run nargsort self =
     (case remove_col_by_name (dataset self) [''dateAdded''] of
        Inl e \<Rightarrow> Inl e
      | Inr cleaned_result \<Rightarrow>
          (case sort_by_targets nargsort False cleaned_result [''directedBy'', ''title''] of
             Inl e \<Rightarrow> Inl e
           | Inr cleaned_result' \<Rightarrow>
               (case pandas_concat [result self, Some cleaned_result'] of
                  Inl e \<Rightarrow> Inl e
                | Inr r \<Rightarrow> Inr (self\<lparr>result := Some r\<rparr>))))"

definition JSONDataProcessor_run ::
  "(bool \<Rightarrow> 'v option list \<Rightarrow> nat list) \<Rightarrow> ('s, 'v) DataProcessor \<Rightarrow> error + ('s, 'v) DataProcessor" where
  "JSONDataProcessor_run nargsort self =
     (case remove_col_by_name (dataset self) [''dateAdded'', ''avgRating''] of
        Inl e \<Rightarrow> Inl e
      | Inr cleaned_result \<Rightarrow>
          (case sort_by_targets nargsort True cleaned_result [''directedBy'', ''title''] of
             Inl e \<Rightarrow> Inl e
           | Inr cleaned_result' \<Rightarrow>
               (case pandas_concat [result self, Some cleaned_result'] of
                  Inl e \<Rightarrow> Inl e
                | Inr r \<Rightarrow> Inr (self\<lparr>result := Some r\<rparr>))))"

section \<open>Notions used to state the properties\<close>

text \<open>
  The order that \<open>sort_values\<close> sorts by: the values ascending or descending, the missing
  ones last in both directions.
\<close>

fun cell_le :: "bool \<Rightarrow> 'v::linorder option \<Rightarrow> 'v option \<Rightarrow> bool" where
  "cell_le ascending _ None = True"
| "cell_le ascending None (Some _) = False"
| "cell_le ascending (Some a) (Some b) = (if ascending then a \<le> b else b \<le> a)"

definition ordered_by :: "bool \<Rightarrow> string \<Rightarrow> 'v::linorder DataFrame \<Rightarrow> bool" where
  "ordered_by ascending c df = sorted_wrt (cell_le ascending) (column_values df c)"

text \<open>
  What is asked of the sorting routine: its indexer is a permutation of the positions of
  the values, and the values read in the order of the indexer are sorted. Nothing is asked
  about the order of equal values.
\<close>

definition nargsort_sorts :: "(bool \<Rightarrow> 'v::linorder option list \<Rightarrow> nat list) \<Rightarrow> bool" where
  "nargsort_sorts nargsort =
     (\<forall>ascending ks. mset (nargsort ascending ks) = mset [0..<length ks]
        \<and> sorted_wrt (cell_le ascending) (map (\<lambda>i. ks ! i) (nargsort ascending ks)))"

text \<open>A sorting routine of this kind, by insertion, for the examples.\<close>

fun insert_index :: "('a \<Rightarrow> 'a \<Rightarrow> bool) \<Rightarrow> 'a list \<Rightarrow> nat \<Rightarrow> nat list \<Rightarrow> nat list" where
  "insert_index le ks i [] = [i]"
| "insert_index le ks i (j # js) =
     (if le (ks ! i) (ks ! j) then i # j # js else j # insert_index le ks i js)"

definition insertion_nargsort :: "bool \<Rightarrow> 'v::linorder option list \<Rightarrow> nat list" where
  "insertion_nargsort ascending ks = foldr (insert_index (cell_le ascending) ks) [0..<length ks] []"

text \<open>
  The part that the three \<open>run\<close> methods have in common, up to the labels to drop and the
  direction: the table that is appended to \<open>result\<close>.
\<close>

definition cleaned_sorted ::
  "(bool \<Rightarrow> 'v option list \<Rightarrow> nat list) \<Rightarrow> string list \<Rightarrow> bool \<Rightarrow> 'v DataFrame option \<Rightarrow> error + 'v DataFrame" where
  "cleaned_sorted nargsort labels asc df =
     (case remove_col_by_name df labels of
        Inl e \<Rightarrow> Inl e
      | Inr cleaned_result \<Rightarrow> sort_by_targets nargsort asc cleaned_result [''directedBy'', ''title''])"

text \<open>
  The processors that a caller can obtain: constructed, then taken through \<open>read\<close> (whatever
  the source holds at that moment) and through \<open>run\<close> calls that return.
\<close>

inductive Csv_reachable :: "('s, 'v) CsvDataProcessor \<Rightarrow> bool" where
  Csv_init: "Csv_reachable (CsvDataProcessor_init src)"
| Csv_read: "Csv_reachable p \<Longrightarrow> CsvDataProcessor_read read_csv p = (b, out, p') \<Longrightarrow> Csv_reachable p'"
| Csv_run: "Csv_reachable p \<Longrightarrow> CsvDataProcessor_run nargsort p = Inr p' \<Longrightarrow> Csv_reachable p'"

inductive Txt_reachable :: "('s, 'v) DataProcessor \<Rightarrow> bool" where
  Txt_init: "Txt_reachable (DataProcessor_init src)"
| Txt_read: "Txt_reachable p \<Longrightarrow> TxtDataProcessor_read read_table p = (b, out, p') \<Longrightarrow> Txt_reachable p'"
| Txt_run: "Txt_reachable p \<Longrightarrow> TxtDataProcessor_run nargsort p = Inr p' \<Longrightarrow> Txt_reachable p'"

inductive JSON_reachable :: "('s, 'v) DataProcessor \<Rightarrow> bool" where
  JSON_init: "JSON_reachable (DataProcessor_init src)"
| JSON_read: "JSON_reachable p \<Longrightarrow> JSONDataProcessor_read read_json p = (b, out, p') \<Longrightarrow> JSON_reachable p'"
| JSON_run: "JSON_reachable p \<Longrightarrow> JSONDataProcessor_run nargsort p = Inr p' \<Longrightarrow> JSON_reachable p'"

text \<open>Two small tables for the examples: one for the text formats, one with ratings.\<close>

definition films :: "nat DataFrame" where
  "films = \<lparr>columns = [''title'', ''directedBy'', ''dateAdded''],
             rows = [[Some 2, Some 5, Some 10], [Some 3, Some 5, Some 11], [Some 1, None, Some 12]]\<rparr>"

definition rated_films :: "nat DataFrame" where
  "rated_films = \<lparr>columns = [''title'', ''avgRating'', ''directedBy'', ''dateAdded''],
                   rows = [[Some 2, Some 9, Some 5, Some 10], [None, Some 8, Some 5, Some 11],
                           [Some 1, Some 7, Some 4, Some 12]]\<rparr>"

section \<open>Properties\<close>

text \<open>
  C8: \<open>run\<close> on a processor whose input table is still None, as the constructor left it,
  raises an exception (AttributeError, from the first helper) for each of the three
  processors; it is not a silent no-op.
\<close>

theorem run_before_read_raises:
  "dataset p = None \<Longrightarrow> dataset q = None \<Longrightarrow>
     CsvDataProcessor_run nargsort p = Inl AttributeError
   \<and> TxtDataProcessor_run nargsort q = Inl AttributeError
   \<and> JSONDataProcessor_run nargsort q = Inl AttributeError"
  by (simp add: CsvDataProcessor_run_def TxtDataProcessor_run_def JSONDataProcessor_run_def
      remove_col_by_name_def)

theorem run_before_read_raises_witness:
  "dataset (CsvDataProcessor_init ''a.csv'' :: (string, nat) CsvDataProcessor) = None
   \<and> dataset (DataProcessor_init ''a.txt'' :: (string, nat) DataProcessor) = None
   \<and> CsvDataProcessor_run (\<lambda>asc ks. []) (CsvDataProcessor_init ''a.csv'' :: (string, nat) CsvDataProcessor)
       = Inl AttributeError
   \<and> TxtDataProcessor_run (\<lambda>asc ks. []) (DataProcessor_init ''a.txt'' :: (string, nat) DataProcessor)
       = Inl AttributeError
   \<and> JSONDataProcessor_run (\<lambda>asc ks. []) (DataProcessor_init ''a.txt'' :: (string, nat) DataProcessor)
       = Inl AttributeError"
  using run_before_read_raises [of "CsvDataProcessor_init ''a.csv'' :: (string, nat) CsvDataProcessor"
      "DataProcessor_init ''a.txt'' :: (string, nat) DataProcessor" "\<lambda>asc ks. []"]
  by (simp add: CsvDataProcessor_init_def DataProcessor_init_def)

text \<open>
  C6: for each of the three formats, when the parser gives a table with at least two
  columns, \<open>read\<close> returns True, prints nothing, and the input table of the processor is
  exactly the table that was parsed; nothing else of the processor changes.
\<close>

theorem read_well_formed_returns_true:
  "read_csv (datasource p) (separator p) = Inr t1 \<Longrightarrow> 2 \<le> length (columns t1) \<Longrightarrow>
   read_table (datasource q) = Inr t2 \<Longrightarrow> 2 \<le> length (columns t2) \<Longrightarrow>
   read_json (datasource q) = Inr t3 \<Longrightarrow> 2 \<le> length (columns t3) \<Longrightarrow>
     CsvDataProcessor_read read_csv p = (True, [], p\<lparr>dataset := Some t1\<rparr>)
   \<and> TxtDataProcessor_read read_table q = (True, [], q\<lparr>dataset := Some t2\<rparr>)
   \<and> JSONDataProcessor_read read_json q = (True, [], q\<lparr>dataset := Some t3\<rparr>)"
  by (simp add: CsvDataProcessor_read_def TxtDataProcessor_read_def JSONDataProcessor_read_def)

theorem read_well_formed_returns_true_witness:
  "CsvDataProcessor_read
      (\<lambda>src sep. if sep = '';'' then Inr \<lparr>columns = [''title'', ''directedBy''], rows = [[Some (1::nat), Some 2]]\<rparr>
                  else Inl ''bad separator'')
      (CsvDataProcessor_init ''films.csv'')
     = (True, [], \<lparr>datasource = ''films.csv'',
                    dataset = Some \<lparr>columns = [''title'', ''directedBy''], rows = [[Some 1, Some 2]]\<rparr>,
                    result = None, separator = '';''\<rparr>)
   \<and> TxtDataProcessor_read
      (\<lambda>src. Inr \<lparr>columns = [''title'', ''directedBy''], rows = [[Some (1::nat), Some 2]]\<rparr>)
      (DataProcessor_init ''films.txt'')
     = (True, [], \<lparr>datasource = ''films.txt'',
                    dataset = Some \<lparr>columns = [''title'', ''directedBy''], rows = [[Some 1, Some 2]]\<rparr>,
                    result = None\<rparr>)
   \<and> JSONDataProcessor_read
      (\<lambda>src. Inr \<lparr>columns = [''title'', ''directedBy'', ''avgRating''], rows = []\<rparr>)
      (DataProcessor_init ''films.txt'' :: (string, nat) DataProcessor)
     = (True, [], \<lparr>datasource = ''films.txt'',
                    dataset = Some \<lparr>columns = [''title'', ''directedBy'', ''avgRating''], rows = []\<rparr>,
                    result = None\<rparr>)"
  using read_well_formed_returns_true
    [of "\<lambda>src sep. if sep = '';'' then Inr \<lparr>columns = [''title'', ''directedBy''], rows = [[Some (1::nat), Some 2]]\<rparr>
                    else Inl ''bad separator''"
        "CsvDataProcessor_init ''films.csv''"
        "\<lparr>columns = [''title'', ''directedBy''], rows = [[Some (1::nat), Some 2]]\<rparr>"
        "\<lambda>src. Inr \<lparr>columns = [''title'', ''directedBy''], rows = [[Some (1::nat), Some 2]]\<rparr>"
        "DataProcessor_init ''films.txt''"
        "\<lparr>columns = [''title'', ''directedBy''], rows = [[Some (1::nat), Some 2]]\<rparr>"
        "\<lambda>src. Inr \<lparr>columns = [''title'', ''directedBy'', ''avgRating''], rows = []\<rparr>"
        "\<lparr>columns = [''title'', ''directedBy'', ''avgRating''], rows = []\<rparr>"]
  by (simp add: CsvDataProcessor_init_def DataProcessor_init_def)

text \<open>
  C9: \<open>read\<close> is not atomic on failure. When the parser gives a table with fewer than two
  columns, \<open>read\<close> returns False and the input table of the processor is that table (the
  assignment comes before the count of the columns). When the parser raises, \<open>read\<close>
  returns False and the input table is the one the processor held before the call.
\<close>

theorem read_failure_not_atomic:
  "(read_csv (datasource p) (separator p) = Inr t1 \<and> length (columns t1) < 2 \<longrightarrow>
      fst (CsvDataProcessor_read read_csv p) = False
    \<and> dataset (snd (snd (CsvDataProcessor_read read_csv p))) = Some t1)
   \<and> (read_csv (datasource p) (separator p) = Inl e1 \<longrightarrow>
      fst (CsvDataProcessor_read read_csv p) = False
    \<and> dataset (snd (snd (CsvDataProcessor_read read_csv p))) = dataset p)
   \<and> (read_table (datasource q) = Inr t2 \<and> length (columns t2) < 2 \<longrightarrow>
      fst (TxtDataProcessor_read read_table q) = False
    \<and> dataset (snd (snd (TxtDataProcessor_read read_table q))) = Some t2)
   \<and> (read_table (datasource q) = Inl e2 \<longrightarrow>
      fst (TxtDataProcessor_read read_table q) = False
    \<and> dataset (snd (snd (TxtDataProcessor_read read_table q))) = dataset q)
   \<and> (read_json (datasource q) = Inr t3 \<and> length (columns t3) < 2 \<longrightarrow>
      fst (JSONDataProcessor_read read_json q) = False
    \<and> dataset (snd (snd (JSONDataProcessor_read read_json q))) = Some t3)
   \<and> (read_json (datasource q) = Inl e3 \<longrightarrow>
      fst (JSONDataProcessor_read read_json q) = False
    \<and> dataset (snd (snd (JSONDataProcessor_read read_json q))) = dataset q)"
  by (simp add: CsvDataProcessor_read_def TxtDataProcessor_read_def JSONDataProcessor_read_def)

text \<open>
  A processor that holds a usable table reads a one-column source (the table is replaced)
  and a source that does not parse (the table is kept).
\<close>

theorem read_failure_not_atomic_witness:
  "fst (CsvDataProcessor_read (\<lambda>src sep. Inr \<lparr>columns = [''title''], rows = [[Some (7::nat)]]\<rparr>)
          \<lparr>datasource = ''a.csv'',
           dataset = Some \<lparr>columns = [''title'', ''directedBy'', ''dateAdded''], rows = []\<rparr>,
           result = None, separator = '';''\<rparr>) = False
   \<and> dataset (snd (snd (CsvDataProcessor_read (\<lambda>src sep. Inr \<lparr>columns = [''title''], rows = [[Some (7::nat)]]\<rparr>)
          \<lparr>datasource = ''a.csv'',
           dataset = Some \<lparr>columns = [''title'', ''directedBy'', ''dateAdded''], rows = []\<rparr>,
           result = None, separator = '';''\<rparr>)))
      = Some \<lparr>columns = [''title''], rows = [[Some 7]]\<rparr>
   \<and> fst (JSONDataProcessor_read (\<lambda>src. Inl ''Expected object or value'')
          \<lparr>datasource = ''a.json'',
           dataset = Some \<lparr>columns = [''title'', ''directedBy'', ''dateAdded''], rows = [[Some (1::nat), Some 2, Some 3]]\<rparr>,
           result = None\<rparr>) = False
   \<and> dataset (snd (snd (JSONDataProcessor_read (\<lambda>src. Inl ''Expected object or value'')
          \<lparr>datasource = ''a.json'',
           dataset = Some \<lparr>columns = [''title'', ''directedBy'', ''dateAdded''], rows = [[Some (1::nat), Some 2, Some 3]]\<rparr>,
           result = None\<rparr>)))
      = Some \<lparr>columns = [''title'', ''directedBy'', ''dateAdded''], rows = [[Some 1, Some 2, Some 3]]\<rparr>"
  using read_failure_not_atomic
    [of "\<lambda>src sep. Inr \<lparr>columns = [''title''], rows = [[Some (7::nat)]]\<rparr>"
        "\<lparr>datasource = ''a.csv'',
          dataset = Some \<lparr>columns = [''title'', ''directedBy'', ''dateAdded''], rows = []\<rparr>,
          result = None, separator = '';''\<rparr>"
        "\<lparr>columns = [''title''], rows = [[Some (7::nat)]]\<rparr>"
        "''x''"
        "\<lambda>src. Inl ''Expected object or value''"
        "\<lparr>datasource = ''a.json'',
           dataset = Some \<lparr>columns = [''title'', ''directedBy'', ''dateAdded''], rows = [[Some (1::nat), Some 2, Some 3]]\<rparr>,
           result = None\<rparr>"
        "\<lparr>columns = [], rows = []\<rparr>"
        "''Expected object or value''"
        "\<lambda>src. Inl ''Expected object or value''"
        "\<lparr>columns = [], rows = []\<rparr>"
        "''Expected object or value''"]
  by simp

text \<open>
  C5: for the processor of line-delimited records, when the parser gives a table with at
  least two columns and no column avgRating, \<open>read\<close> returns True and the \<open>run\<close> that
  follows raises KeyError, from \<open>remove_col_by_name\<close>, naming the labels it did not find,
  avgRating among them.
\<close>

theorem JSON_run_without_avgRating_raises:
  "read_json (datasource q) = Inr t \<Longrightarrow> 2 \<le> length (columns t) \<Longrightarrow>
   ''avgRating'' \<notin> set (columns t) \<Longrightarrow>
     fst (JSONDataProcessor_read read_json q) = True
   \<and> remove_col_by_name (dataset (snd (snd (JSONDataProcessor_read read_json q)))) [''dateAdded'', ''avgRating'']
       = Inl (KeyError (filter (\<lambda>l. l \<notin> set (columns t)) [''dateAdded'', ''avgRating'']))
   \<and> JSONDataProcessor_run nargsort (snd (snd (JSONDataProcessor_read read_json q)))
       = Inl (KeyError (filter (\<lambda>l. l \<notin> set (columns t)) [''dateAdded'', ''avgRating'']))
   \<and> ''avgRating'' \<in> set (filter (\<lambda>l. l \<notin> set (columns t)) [''dateAdded'', ''avgRating''])"
  by (simp add: JSONDataProcessor_read_def JSONDataProcessor_run_def remove_col_by_name_def
      DataFrame_drop_def)

theorem JSON_run_without_avgRating_raises_witness:
  "fst (JSONDataProcessor_read
          (\<lambda>src. Inr \<lparr>columns = [''title'', ''directedBy'', ''dateAdded''], rows = [[Some (1::nat), Some 2, Some 3]]\<rparr>)
          (DataProcessor_init ''films.json'')) = True
   \<and> JSONDataProcessor_run (\<lambda>asc ks. [0..<length ks])
        (snd (snd (JSONDataProcessor_read
          (\<lambda>src. Inr \<lparr>columns = [''title'', ''directedBy'', ''dateAdded''], rows = [[Some (1::nat), Some 2, Some 3]]\<rparr>)
          (DataProcessor_init ''films.json''))))
       = Inl (KeyError [''avgRating''])"
  using JSON_run_without_avgRating_raises
    [of "\<lambda>src. Inr \<lparr>columns = [''title'', ''directedBy'', ''dateAdded''], rows = [[Some (1::nat), Some 2, Some 3]]\<rparr>"
        "DataProcessor_init ''films.json''"
        "\<lparr>columns = [''title'', ''directedBy'', ''dateAdded''], rows = [[Some (1::nat), Some 2, Some 3]]\<rparr>"
        "\<lambda>asc ks. [0..<length ks]"]
  by simp

text \<open>
  C1, as the spec states it, does not hold: a source that parses to a table with a single
  column makes \<open>read\<close> return False without printing anything (only the exception
  handler prints), and a source that fails to parse leaves a processor that held a table
  of three columns with that table.
\<close>

theorem read_failure_logged_and_unusable_counterexample:
  "fst (CsvDataProcessor_read (\<lambda>src sep. Inr \<lparr>columns = [''title''], rows = [[Some (7::nat)]]\<rparr>)
          (CsvDataProcessor_init ''one.csv'')) = False
   \<and> fst (snd (CsvDataProcessor_read (\<lambda>src sep. Inr \<lparr>columns = [''title''], rows = [[Some (7::nat)]]\<rparr>)
          (CsvDataProcessor_init ''one.csv''))) = []
   \<and> fst (TxtDataProcessor_read (\<lambda>src. Inl ''No such file or directory'')
          \<lparr>datasource = ''gone.txt'',
           dataset = Some \<lparr>columns = [''title'', ''directedBy'', ''dateAdded''], rows = [[Some (1::nat), Some 2, Some 3]]\<rparr>,
           result = None\<rparr>) = False
   \<and> dataset (snd (snd (TxtDataProcessor_read (\<lambda>src. Inl ''No such file or directory'')
          \<lparr>datasource = ''gone.txt'',
           dataset = Some \<lparr>columns = [''title'', ''directedBy'', ''dateAdded''], rows = [[Some (1::nat), Some 2, Some 3]]\<rparr>,
           result = None\<rparr>)))
      = Some \<lparr>columns = [''title'', ''directedBy'', ''dateAdded''], rows = [[Some 1, Some 2, Some 3]]\<rparr>"
  by (simp add: CsvDataProcessor_read_def TxtDataProcessor_read_def CsvDataProcessor_init_def)

text \<open>
  C1, amended: for each of the three formats, \<open>read\<close> returns False, rather than raising,
  when the parser raises and when it gives a table with fewer than two columns, and it
  never changes the result table. When the parser raises, the message of the exception is
  printed and the processor is left as it was. When the table has fewer than two columns,
  nothing is printed and that table becomes the input table.
\<close>

theorem read_failure_returns_false:
  "(read_csv (datasource p) (separator p) = Inl e1 \<longrightarrow>
      CsvDataProcessor_read read_csv p = (False, [e1], p))
   \<and> (read_csv (datasource p) (separator p) = Inr t1 \<and> length (columns t1) < 2 \<longrightarrow>
      CsvDataProcessor_read read_csv p = (False, [], p\<lparr>dataset := Some t1\<rparr>))
   \<and> (read_table (datasource q) = Inl e2 \<longrightarrow>
      TxtDataProcessor_read read_table q = (False, [e2], q))
   \<and> (read_table (datasource q) = Inr t2 \<and> length (columns t2) < 2 \<longrightarrow>
      TxtDataProcessor_read read_table q = (False, [], q\<lparr>dataset := Some t2\<rparr>))
   \<and> (read_json (datasource q) = Inl e3 \<longrightarrow>
      JSONDataProcessor_read read_json q = (False, [e3], q))
   \<and> (read_json (datasource q) = Inr t3 \<and> length (columns t3) < 2 \<longrightarrow>
      JSONDataProcessor_read read_json q = (False, [], q\<lparr>dataset := Some t3\<rparr>))
   \<and> result (snd (snd (CsvDataProcessor_read read_csv p))) = result p
   \<and> result (snd (snd (TxtDataProcessor_read read_table q))) = result q
   \<and> result (snd (snd (JSONDataProcessor_read read_json q))) = result q"
  by (simp add: CsvDataProcessor_read_def TxtDataProcessor_read_def JSONDataProcessor_read_def
      Let_def split: sum.splits)

theorem read_failure_returns_false_witness:
  "CsvDataProcessor_read (\<lambda>src sep. Inl ''No such file or directory'')
      (CsvDataProcessor_init ''gone.csv'' :: (string, nat) CsvDataProcessor)
     = (False, [''No such file or directory''], CsvDataProcessor_init ''gone.csv'')
   \<and> TxtDataProcessor_read (\<lambda>src. Inr \<lparr>columns = [''title''], rows = [[Some (7::nat)]]\<rparr>)
      \<lparr>datasource = ''one.txt'', dataset = None,
       result = Some \<lparr>columns = [''title'', ''directedBy''], rows = [[Some 1, Some 2]]\<rparr>\<rparr>
     = (False, [],
        \<lparr>datasource = ''one.txt'', dataset = Some \<lparr>columns = [''title''], rows = [[Some 7]]\<rparr>,
         result = Some \<lparr>columns = [''title'', ''directedBy''], rows = [[Some 1, Some 2]]\<rparr>\<rparr>)
   \<and> JSONDataProcessor_read (\<lambda>src. Inr \<lparr>columns = [], rows = []\<rparr>)
      \<lparr>datasource = ''one.txt'', dataset = None,
       result = Some \<lparr>columns = [''title'', ''directedBy''], rows = [[Some (1::nat), Some 2]]\<rparr>\<rparr>
     = (False, [],
        \<lparr>datasource = ''one.txt'', dataset = Some \<lparr>columns = [], rows = []\<rparr>,
         result = Some \<lparr>columns = [''title'', ''directedBy''], rows = [[Some 1, Some 2]]\<rparr>\<rparr>)"
  using read_failure_returns_false
    [of "\<lambda>src sep. Inl ''No such file or directory''"
        "CsvDataProcessor_init ''gone.csv'' :: (string, nat) CsvDataProcessor"
        "''No such file or directory''"
        "\<lparr>columns = [], rows = []\<rparr>"
        "\<lambda>src. Inr \<lparr>columns = [''title''], rows = [[Some (7::nat)]]\<rparr>"
        "\<lparr>datasource = ''one.txt'', dataset = None,
          result = Some \<lparr>columns = [''title'', ''directedBy''], rows = [[Some 1, Some 2]]\<rparr>\<rparr>"
        "''x''"
        "\<lparr>columns = [''title''], rows = [[Some (7::nat)]]\<rparr>"]
    read_failure_returns_false
    [of "\<lambda>src sep. Inl ''No such file or directory''"
        "CsvDataProcessor_init ''gone.csv'' :: (string, nat) CsvDataProcessor"
        "''No such file or directory''"
        "\<lparr>columns = [], rows = []\<rparr>"
        "\<lambda>src. Inr \<lparr>columns = [''title''], rows = [[Some (7::nat)]]\<rparr>"
        "\<lparr>datasource = ''one.txt'', dataset = None,
          result = Some \<lparr>columns = [''title'', ''directedBy''], rows = [[Some (1::nat), Some 2]]\<rparr>\<rparr>"
        "''x''"
        "\<lparr>columns = [''title''], rows = [[Some (7::nat)]]\<rparr>"
        "\<lambda>src. Inr \<lparr>columns = [], rows = []\<rparr>"
        "''x''"
        "\<lparr>columns = [], rows = []\<rparr>"]
  by (simp add: CsvDataProcessor_init_def)

section \<open>The sorting routine of the examples\<close>

lemma cell_le_total: "cell_le asc a b \<or> cell_le asc b a"
  by (cases a; cases b) auto

lemma cell_le_trans: "cell_le asc a b \<Longrightarrow> cell_le asc b c \<Longrightarrow> cell_le asc a c"
  by (cases a; cases b; cases c) (auto split: if_splits)

lemma mset_insert_index: "mset (insert_index le ks i js) = add_mset i (mset js)"
  by (induction js) auto

lemma set_insert_index: "set (insert_index le ks i js) = insert i (set js)"
  by (induction js) auto

lemma sorted_insert_index:
  "sorted_wrt (\<lambda>a b. cell_le asc (ks ! a) (ks ! b)) js \<Longrightarrow>
   sorted_wrt (\<lambda>a b. cell_le asc (ks ! a) (ks ! b)) (insert_index (cell_le asc) ks i js)"
proof (induction js)
  case Nil
  then show ?case by simp
next
  case (Cons j js)
  show ?case
  proof (cases "cell_le asc (ks ! i) (ks ! j)")
    case True
    with Cons.prems show ?thesis by (auto intro: cell_le_trans)
  next
    case False
    then have "cell_le asc (ks ! j) (ks ! i)" using cell_le_total by blast
    with False Cons show ?thesis by (auto simp: set_insert_index)
  qed
qed

lemma mset_foldr_insert_index: "mset (foldr (insert_index le ks) is []) = mset is"
  by (induction "is") (auto simp: mset_insert_index)

lemma sorted_foldr_insert_index:
  "sorted_wrt (\<lambda>a b. cell_le asc (ks ! a) (ks ! b)) (foldr (insert_index (cell_le asc) ks) is [])"
  by (induction "is") (auto intro: sorted_insert_index)

lemma insertion_nargsort_sorts: "nargsort_sorts insertion_nargsort"
  unfolding nargsort_sorts_def insertion_nargsort_def
  by (simp add: mset_foldr_insert_index sorted_wrt_map sorted_foldr_insert_index)

section \<open>The table operations\<close>

lemma DataFrame_drop_Inr:
  "set labels \<subseteq> set (columns df) \<Longrightarrow>
   DataFrame_drop df labels =
     Inr \<lparr>columns = filter (\<lambda>c. c \<notin> set labels) (columns df),
          rows = map (\<lambda>r. map snd (filter (\<lambda>cv. fst cv \<notin> set labels) (zip (columns df) r))) (rows df)\<rparr>"
proof -
  assume "set labels \<subseteq> set (columns df)"
  then have "filter (\<lambda>l. l \<notin> set (columns df)) labels = []"
    by (auto simp: filter_empty_conv)
  then show ?thesis by (simp add: DataFrame_drop_def)
qed

lemma DataFrame_drop_Inl:
  "\<not> set labels \<subseteq> set (columns df) \<Longrightarrow>
   DataFrame_drop df labels = Inl (KeyError (filter (\<lambda>l. l \<notin> set (columns df)) labels))"
proof -
  assume "\<not> set labels \<subseteq> set (columns df)"
  then have "filter (\<lambda>l. l \<notin> set (columns df)) labels \<noteq> []"
    by (auto simp: filter_empty_conv)
  then show ?thesis by (auto simp: DataFrame_drop_def split: list.splits)
qed

lemma DataFrame_drop_columns:
  "DataFrame_drop df labels = Inr d \<Longrightarrow> columns d = filter (\<lambda>c. c \<notin> set labels) (columns df)"
  by (cases "set labels \<subseteq> set (columns df)") (auto simp: DataFrame_drop_Inr DataFrame_drop_Inl)

lemma take_rows_Inr:
  "take_rows df idx = Inr d \<Longrightarrow>
     columns d = columns df \<and> rows d = map (\<lambda>i. rows df ! i) idx \<and> (\<forall>i\<in>set idx. i < length (rows df))"
  by (auto simp: take_rows_def list_all_iff split: if_splits)

lemma sort_values_Inr:
  "sort_values ns df c asc = Inr d \<Longrightarrow>
     columns d = columns df \<and> set (rows d) \<subseteq> set (rows df) \<and> count_list (columns df) c = 1"
  by (auto simp: sort_values_def dest!: take_rows_Inr split: if_splits)

lemma mset_nth_indexer:
  assumes "mset idx = mset [0..<length xs]"
  shows "mset (map (\<lambda>i. xs ! i) idx) = mset xs"
proof -
  have "mset (map (\<lambda>i. xs ! i) idx) = image_mset (\<lambda>i. xs ! i) (mset idx)" by simp
  also have "\<dots> = mset (map (\<lambda>i. xs ! i) [0..<length xs])" using assms by simp
  also have "\<dots> = mset xs" by (simp add: map_nth)
  finally show ?thesis .
qed

lemma indexer_in_range:
  assumes "mset idx = mset [0..<n]"
  shows "list_all (\<lambda>i. i < n) idx"
proof -
  have "set idx = set [0..<n]" using assms by (metis set_mset_mset)
  then show ?thesis by (auto simp: list_all_iff)
qed

lemma column_values_take:
  assumes "list_all (\<lambda>i. i < length rs) idx"
  shows "column_values \<lparr>columns = cs, rows = map (\<lambda>i. rs ! i) idx\<rparr> c
         = map (\<lambda>i. column_values \<lparr>columns = cs, rows = rs\<rparr> c ! i) idx"
  using assms by (auto simp: column_values_def list_all_iff)

lemma sort_values_sorts:
  assumes ns: "nargsort_sorts ns" and c: "count_list (columns df) c = 1"
  shows "\<exists>d. sort_values ns df c asc = Inr d \<and> columns d = columns df
           \<and> mset (rows d) = mset (rows df) \<and> ordered_by asc c d"
proof -
  let ?ks = "column_values df c"
  let ?idx = "ns asc ?ks"
  have len: "length ?ks = length (rows df)" by (simp add: column_values_def)
  from ns have perm: "mset ?idx = mset [0..<length (rows df)]"
    and srt: "sorted_wrt (cell_le asc) (map (\<lambda>i. ?ks ! i) ?idx)"
    unfolding nargsort_sorts_def using len by metis+
  have rng: "list_all (\<lambda>i. i < length (rows df)) ?idx"
    using perm by (rule indexer_in_range)
  from c have mem: "c \<in> set (columns df)"
    by (metis count_list_0_iff zero_neq_one)
  let ?d = "\<lparr>columns = columns df, rows = map (\<lambda>i. rows df ! i) ?idx\<rparr>"
  have run: "sort_values ns df c asc = Inr ?d"
    using mem c rng by (simp add: sort_values_def take_rows_def)
  have "column_values ?d c = map (\<lambda>i. column_values \<lparr>columns = columns df, rows = rows df\<rparr> c ! i) ?idx"
    using rng by (rule column_values_take)
  also have "column_values \<lparr>columns = columns df, rows = rows df\<rparr> c = ?ks"
    by (simp add: column_values_def)
  finally have "ordered_by asc c ?d" using srt by (simp add: ordered_by_def)
  moreover have "mset (rows ?d) = mset (rows df)"
    using perm by (simp add: mset_nth_indexer del: mset_map)
  ultimately show ?thesis using run by simp
qed

section \<open>The appended table\<close>

lemma count_list_filter:
  "count_list (filter P xs) c = (if P c then count_list xs c else 0)"
  by (induction xs) auto

lemma DataFrame_drop_length:
  "DataFrame_drop df labels = Inr d \<Longrightarrow> length (rows d) = length (rows df)"
  by (cases "set labels \<subseteq> set (columns df)") (auto simp: DataFrame_drop_Inr DataFrame_drop_Inl)

lemma pandas_concat_None: "pandas_concat [None, Some b] = Inr b"
  by (simp add: pandas_concat_def List.map_filter_simps)

lemma pandas_concat_Some: "pandas_concat [Some r, Some b] = append_frames r b"
  by (simp add: pandas_concat_def List.map_filter_simps split: sum.splits)

lemma Csv_run_cleaned_sorted:
  "CsvDataProcessor_run ns p =
     (case cleaned_sorted ns [''dateAdded''] False (dataset p) of
        Inl e \<Rightarrow> Inl e
      | Inr b \<Rightarrow> (case pandas_concat [result p, Some b] of
                    Inl e \<Rightarrow> Inl e | Inr r \<Rightarrow> Inr (p\<lparr>result := Some r\<rparr>)))"
  by (simp add: CsvDataProcessor_run_def cleaned_sorted_def split: sum.splits)

lemma Txt_run_cleaned_sorted:
  "TxtDataProcessor_run ns p =
     (case cleaned_sorted ns [''dateAdded''] False (dataset p) of
        Inl e \<Rightarrow> Inl e
      | Inr b \<Rightarrow> (case pandas_concat [result p, Some b] of
                    Inl e \<Rightarrow> Inl e | Inr r \<Rightarrow> Inr (p\<lparr>result := Some r\<rparr>)))"
  by (simp add: TxtDataProcessor_run_def cleaned_sorted_def split: sum.splits)

lemma JSON_run_cleaned_sorted:
  "JSONDataProcessor_run ns p =
     (case cleaned_sorted ns [''dateAdded'', ''avgRating''] True (dataset p) of
        Inl e \<Rightarrow> Inl e
      | Inr b \<Rightarrow> (case pandas_concat [result p, Some b] of
                    Inl e \<Rightarrow> Inl e | Inr r \<Rightarrow> Inr (p\<lparr>result := Some r\<rparr>)))"
  by (simp add: JSONDataProcessor_run_def cleaned_sorted_def split: sum.splits)

lemma cleaned_sorted_steps:
  "cleaned_sorted ns labels asc (Some t) = Inr b \<longleftrightarrow>
     (\<exists>d0 d1. remove_col_by_name (Some t) labels = Inr d0
        \<and> sort_data_by_col ns (Some d0) ''directedBy'' asc = Inr d1
        \<and> sort_data_by_col ns (Some d1) ''title'' asc = Inr b)"
  by (auto simp: cleaned_sorted_def split: sum.splits)

lemma cleaned_sorted_sorts:
  assumes ns: "nargsort_sorts ns"
    and lab: "set labels \<subseteq> set (columns t)"
    and nd: "''directedBy'' \<notin> set labels" and nt: "''title'' \<notin> set labels"
    and cd: "count_list (columns t) ''directedBy'' = 1"
    and ct: "count_list (columns t) ''title'' = 1"
  shows "\<exists>d0 b. DataFrame_drop t labels = Inr d0
           \<and> cleaned_sorted ns labels asc (Some t) = Inr b
           \<and> columns b = filter (\<lambda>c. c \<notin> set labels) (columns t)
           \<and> mset (rows b) = mset (rows d0)
           \<and> ordered_by asc ''title'' b"
proof -
  from lab obtain d0 where d0: "DataFrame_drop t labels = Inr d0"
    by (simp add: DataFrame_drop_Inr)
  then have cols0: "columns d0 = filter (\<lambda>c. c \<notin> set labels) (columns t)"
    by (rule DataFrame_drop_columns)
  have "count_list (columns d0) ''directedBy'' = 1"
    using cd nd by (simp add: cols0 count_list_filter)
  from sort_values_sorts [OF ns this, of asc] obtain d1 where
    d1: "sort_values ns d0 ''directedBy'' asc = Inr d1" and cols1: "columns d1 = columns d0"
    and rows1: "mset (rows d1) = mset (rows d0)" by blast
  have "count_list (columns d1) ''title'' = 1"
    using ct nt by (simp add: cols1 cols0 count_list_filter)
  from sort_values_sorts [OF ns this, of asc] obtain b where
    b: "sort_values ns d1 ''title'' asc = Inr b" and colsb: "columns b = columns d1"
    and rowsb: "mset (rows b) = mset (rows d1)" and ord: "ordered_by asc ''title'' b" by blast
  have "cleaned_sorted ns labels asc (Some t) = Inr b"
    using d0 d1 b by (simp add: cleaned_sorted_def remove_col_by_name_def sort_data_by_col_def)
  then show ?thesis using d0 colsb cols1 cols0 rowsb rows1 ord by simp
qed

lemma cleaned_sorted_columns:
  "cleaned_sorted ns labels asc df = Inr b \<Longrightarrow>
     \<exists>t. df = Some t \<and> columns b = filter (\<lambda>c. c \<notin> set labels) (columns t)"
  by (auto simp: cleaned_sorted_def remove_col_by_name_def sort_data_by_col_def
      split: sum.splits option.splits dest!: sort_values_Inr DataFrame_drop_columns)

lemma append_frames_columns:
  "append_frames a b = Inr r \<Longrightarrow> set (columns r) \<subseteq> set (columns a) \<union> set (columns b)"
  by (auto simp: append_frames_def Let_def split: if_splits)

lemma append_frames_length:
  "append_frames a b = Inr r \<Longrightarrow> length (rows r) = length (rows a) + length (rows b)"
  by (auto simp: append_frames_def Let_def split: if_splits)

lemma append_frames_same_columns:
  "columns r = columns b \<Longrightarrow> append_frames r b = Inr \<lparr>columns = columns r, rows = rows r @ rows b\<rparr>"
  by (simp add: append_frames_def)

lemma batch_appended:
  assumes ns: "nargsort_sorts ns"
    and lab: "set labels \<subseteq> set (columns t)"
    and nd: "''directedBy'' \<notin> set labels" and nt: "''title'' \<notin> set labels"
    and cd: "count_list (columns t) ''directedBy'' = 1"
    and ct: "count_list (columns t) ''title'' = 1"
  shows "\<exists>d0 d1 b. remove_col_by_name (Some t) labels = Inr d0
           \<and> sort_data_by_col ns (Some d0) ''directedBy'' asc = Inr d1
           \<and> sort_data_by_col ns (Some d1) ''title'' asc = Inr b
           \<and> ordered_by asc ''title'' b
           \<and> mset (rows b) = mset (rows d0)
           \<and> columns b = filter (\<lambda>c. c \<notin> set labels) (columns t)
           \<and> cleaned_sorted ns labels asc (Some t) = Inr b"
proof -
  from cleaned_sorted_sorts [OF assms, of asc] obtain d0 b where
    d0: "DataFrame_drop t labels = Inr d0" and b: "cleaned_sorted ns labels asc (Some t) = Inr b"
    and rest: "columns b = filter (\<lambda>c. c \<notin> set labels) (columns t)"
      "mset (rows b) = mset (rows d0)" "ordered_by asc ''title'' b" by blast
  from b obtain d0' d1 where steps: "remove_col_by_name (Some t) labels = Inr d0'"
    "sort_data_by_col ns (Some d0') ''directedBy'' asc = Inr d1"
    "sort_data_by_col ns (Some d1) ''title'' asc = Inr b"
    unfolding cleaned_sorted_steps by blast
  from steps(1) d0 have "d0' = d0" by (simp add: remove_col_by_name_def)
  with steps b rest show ?thesis by blast
qed

lemma run_appends_batch:
  assumes ns: "nargsort_sorts ns"
    and run: "run = (case cleaned_sorted ns labels asc (Some t) of
        Inl e \<Rightarrow> Inl e
      | Inr b \<Rightarrow> (case pandas_concat [res, Some b] of
                    Inl e \<Rightarrow> Inl e | Inr r \<Rightarrow> Inr (upd r)))"
    and lab: "set labels \<subseteq> set (columns t)"
    and nd: "''directedBy'' \<notin> set labels" and nt: "''title'' \<notin> set labels"
    and cd: "count_list (columns t) ''directedBy'' = 1"
    and ct: "count_list (columns t) ''title'' = 1"
  shows "\<exists>d0 d1 b. remove_col_by_name (Some t) labels = Inr d0
           \<and> sort_data_by_col ns (Some d0) ''directedBy'' asc = Inr d1
           \<and> sort_data_by_col ns (Some d1) ''title'' asc = Inr b
           \<and> ordered_by asc ''title'' b
           \<and> mset (rows b) = mset (rows d0)
           \<and> (res = None \<longrightarrow> run = Inr (upd b))
           \<and> (\<forall>r. res = Some r \<and> columns r = columns b \<longrightarrow>
                 run = Inr (upd \<lparr>columns = columns r, rows = rows r @ rows b\<rparr>))"
proof -
  from batch_appended [OF ns lab nd nt cd ct, of asc] obtain d0 d1 b where
    s: "remove_col_by_name (Some t) labels = Inr d0"
      "sort_data_by_col ns (Some d0) ''directedBy'' asc = Inr d1"
      "sort_data_by_col ns (Some d1) ''title'' asc = Inr b"
      "ordered_by asc ''title'' b" "mset (rows b) = mset (rows d0)"
    and cs: "cleaned_sorted ns labels asc (Some t) = Inr b" by auto
  have a: "res = None \<longrightarrow> run = Inr (upd b)"
    using cs by (simp add: run pandas_concat_None)
  have b: "\<forall>r. res = Some r \<and> columns r = columns b \<longrightarrow>
                 run = Inr (upd \<lparr>columns = columns r, rows = rows r @ rows b\<rparr>)"
    using cs by (simp add: run pandas_concat_Some append_frames_same_columns)
  show ?thesis
    apply (rule exI [of _ d0], rule exI [of _ d1], rule exI [of _ b])
    using s a b by simp
qed

text \<open>
  C2: on a table with the columns it needs, \<open>run\<close> of the delimited-text and of the
  whitespace-text processor drops dateAdded and sorts descending by directedBy and then by
  title; \<open>run\<close> of the processor of line-delimited records drops dateAdded and avgRating and
  sorts ascending by directedBy and then by title. With a sorting routine that sorts, the
  table that results holds the rows that were left after the drop, ordered by title in that
  direction (the last sort decides), and it is what \<open>run\<close> stores in an empty result and
  puts after the rows of a result of the same columns.
\<close>

theorem run_title_dominant:
  assumes "nargsort_sorts nargsort"
  shows
  "(dataset p = Some t1 \<and> ''dateAdded'' \<in> set (columns t1)
      \<and> count_list (columns t1) ''directedBy'' = 1 \<and> count_list (columns t1) ''title'' = 1 \<longrightarrow>
    (\<exists>d0 d1 b. remove_col_by_name (Some t1) [''dateAdded''] = Inr d0
       \<and> sort_data_by_col nargsort (Some d0) ''directedBy'' False = Inr d1
       \<and> sort_data_by_col nargsort (Some d1) ''title'' False = Inr b
       \<and> ordered_by False ''title'' b
       \<and> mset (rows b) = mset (rows d0)
       \<and> (result p = None \<longrightarrow> CsvDataProcessor_run nargsort p = Inr (p\<lparr>result := Some b\<rparr>))
       \<and> (\<forall>r. result p = Some r \<and> columns r = columns b \<longrightarrow>
            CsvDataProcessor_run nargsort p
              = Inr (p\<lparr>result := Some \<lparr>columns = columns r, rows = rows r @ rows b\<rparr>\<rparr>))))
   \<and> (dataset q = Some t2 \<and> ''dateAdded'' \<in> set (columns t2)
      \<and> count_list (columns t2) ''directedBy'' = 1 \<and> count_list (columns t2) ''title'' = 1 \<longrightarrow>
    (\<exists>d0 d1 b. remove_col_by_name (Some t2) [''dateAdded''] = Inr d0
       \<and> sort_data_by_col nargsort (Some d0) ''directedBy'' False = Inr d1
       \<and> sort_data_by_col nargsort (Some d1) ''title'' False = Inr b
       \<and> ordered_by False ''title'' b
       \<and> mset (rows b) = mset (rows d0)
       \<and> (result q = None \<longrightarrow> TxtDataProcessor_run nargsort q = Inr (q\<lparr>result := Some b\<rparr>))
       \<and> (\<forall>r. result q = Some r \<and> columns r = columns b \<longrightarrow>
            TxtDataProcessor_run nargsort q
              = Inr (q\<lparr>result := Some \<lparr>columns = columns r, rows = rows r @ rows b\<rparr>\<rparr>))))
   \<and> (dataset j = Some t3 \<and> ''dateAdded'' \<in> set (columns t3) \<and> ''avgRating'' \<in> set (columns t3)
      \<and> count_list (columns t3) ''directedBy'' = 1 \<and> count_list (columns t3) ''title'' = 1 \<longrightarrow>
    (\<exists>d0 d1 b. remove_col_by_name (Some t3) [''dateAdded'', ''avgRating''] = Inr d0
       \<and> sort_data_by_col nargsort (Some d0) ''directedBy'' True = Inr d1
       \<and> sort_data_by_col nargsort (Some d1) ''title'' True = Inr b
       \<and> ordered_by True ''title'' b
       \<and> mset (rows b) = mset (rows d0)
       \<and> (result j = None \<longrightarrow> JSONDataProcessor_run nargsort j = Inr (j\<lparr>result := Some b\<rparr>))
       \<and> (\<forall>r. result j = Some r \<and> columns r = columns b \<longrightarrow>
            JSONDataProcessor_run nargsort j
              = Inr (j\<lparr>result := Some \<lparr>columns = columns r, rows = rows r @ rows b\<rparr>\<rparr>))))"
proof (intro conjI impI)
  assume h: "dataset p = Some t1 \<and> ''dateAdded'' \<in> set (columns t1)
      \<and> count_list (columns t1) ''directedBy'' = 1 \<and> count_list (columns t1) ''title'' = 1"
  have "CsvDataProcessor_run nargsort p =
     (case cleaned_sorted nargsort [''dateAdded''] False (Some t1) of
        Inl e \<Rightarrow> Inl e
      | Inr b \<Rightarrow> (case pandas_concat [result p, Some b] of
                    Inl e \<Rightarrow> Inl e | Inr r \<Rightarrow> Inr (p\<lparr>result := Some r\<rparr>)))"
    using h by (simp add: Csv_run_cleaned_sorted)
  from run_appends_batch [OF assms this] h
  show "\<exists>d0 d1 b. remove_col_by_name (Some t1) [''dateAdded''] = Inr d0
       \<and> sort_data_by_col nargsort (Some d0) ''directedBy'' False = Inr d1
       \<and> sort_data_by_col nargsort (Some d1) ''title'' False = Inr b
       \<and> ordered_by False ''title'' b
       \<and> mset (rows b) = mset (rows d0)
       \<and> (result p = None \<longrightarrow> CsvDataProcessor_run nargsort p = Inr (p\<lparr>result := Some b\<rparr>))
       \<and> (\<forall>r. result p = Some r \<and> columns r = columns b \<longrightarrow>
            CsvDataProcessor_run nargsort p
              = Inr (p\<lparr>result := Some \<lparr>columns = columns r, rows = rows r @ rows b\<rparr>\<rparr>))"
    by simp
next
  assume h: "dataset q = Some t2 \<and> ''dateAdded'' \<in> set (columns t2)
      \<and> count_list (columns t2) ''directedBy'' = 1 \<and> count_list (columns t2) ''title'' = 1"
  have "TxtDataProcessor_run nargsort q =
     (case cleaned_sorted nargsort [''dateAdded''] False (Some t2) of
        Inl e \<Rightarrow> Inl e
      | Inr b \<Rightarrow> (case pandas_concat [result q, Some b] of
                    Inl e \<Rightarrow> Inl e | Inr r \<Rightarrow> Inr (q\<lparr>result := Some r\<rparr>)))"
    using h by (simp add: Txt_run_cleaned_sorted)
  from run_appends_batch [OF assms this] h
  show "\<exists>d0 d1 b. remove_col_by_name (Some t2) [''dateAdded''] = Inr d0
       \<and> sort_data_by_col nargsort (Some d0) ''directedBy'' False = Inr d1
       \<and> sort_data_by_col nargsort (Some d1) ''title'' False = Inr b
       \<and> ordered_by False ''title'' b
       \<and> mset (rows b) = mset (rows d0)
       \<and> (result q = None \<longrightarrow> TxtDataProcessor_run nargsort q = Inr (q\<lparr>result := Some b\<rparr>))
       \<and> (\<forall>r. result q = Some r \<and> columns r = columns b \<longrightarrow>
            TxtDataProcessor_run nargsort q
              = Inr (q\<lparr>result := Some \<lparr>columns = columns r, rows = rows r @ rows b\<rparr>\<rparr>))"
    by simp
next
  assume h: "dataset j = Some t3 \<and> ''dateAdded'' \<in> set (columns t3) \<and> ''avgRating'' \<in> set (columns t3)
      \<and> count_list (columns t3) ''directedBy'' = 1 \<and> count_list (columns t3) ''title'' = 1"
  have "JSONDataProcessor_run nargsort j =
     (case cleaned_sorted nargsort [''dateAdded'', ''avgRating''] True (Some t3) of
        Inl e \<Rightarrow> Inl e
      | Inr b \<Rightarrow> (case pandas_concat [result j, Some b] of
                    Inl e \<Rightarrow> Inl e | Inr r \<Rightarrow> Inr (j\<lparr>result := Some r\<rparr>)))"
    using h by (simp add: JSON_run_cleaned_sorted)
  from run_appends_batch [OF assms this] h
  show "\<exists>d0 d1 b. remove_col_by_name (Some t3) [''dateAdded'', ''avgRating''] = Inr d0
       \<and> sort_data_by_col nargsort (Some d0) ''directedBy'' True = Inr d1
       \<and> sort_data_by_col nargsort (Some d1) ''title'' True = Inr b
       \<and> ordered_by True ''title'' b
       \<and> mset (rows b) = mset (rows d0)
       \<and> (result j = None \<longrightarrow> JSONDataProcessor_run nargsort j = Inr (j\<lparr>result := Some b\<rparr>))
       \<and> (\<forall>r. result j = Some r \<and> columns r = columns b \<longrightarrow>
            JSONDataProcessor_run nargsort j
              = Inr (j\<lparr>result := Some \<lparr>columns = columns r, rows = rows r @ rows b\<rparr>\<rparr>))"
    by simp
qed

theorem run_title_dominant_witness:
  "nargsort_sorts (insertion_nargsort :: bool \<Rightarrow> nat option list \<Rightarrow> nat list)
   \<and> CsvDataProcessor_run insertion_nargsort
        \<lparr>datasource = ''f.csv'', dataset = Some films, result = None, separator = '';''\<rparr>
      = Inr \<lparr>datasource = ''f.csv'', dataset = Some films,
             result = Some \<lparr>columns = [''title'', ''directedBy''],
                             rows = [[Some 3, Some 5], [Some 2, Some 5], [Some 1, None]]\<rparr>,
             separator = '';''\<rparr>
   \<and> TxtDataProcessor_run insertion_nargsort
        \<lparr>datasource = ''f.txt'', dataset = Some films,
         result = Some \<lparr>columns = [''title'', ''directedBy''], rows = [[Some 9, Some 9]]\<rparr>\<rparr>
      = Inr \<lparr>datasource = ''f.txt'', dataset = Some films,
             result = Some \<lparr>columns = [''title'', ''directedBy''],
                             rows = [[Some 9, Some 9], [Some 3, Some 5], [Some 2, Some 5], [Some 1, None]]\<rparr>\<rparr>
   \<and> ordered_by False ''title''
        \<lparr>columns = [''title'', ''directedBy''],
         rows = [[Some (3::nat), Some 5], [Some 2, Some 5], [Some 1, None]]\<rparr>
   \<and> JSONDataProcessor_run insertion_nargsort
        \<lparr>datasource = ''f.json'', dataset = Some rated_films, result = None\<rparr>
      = Inr \<lparr>datasource = ''f.json'', dataset = Some rated_films,
             result = Some \<lparr>columns = [''title'', ''directedBy''],
                             rows = [[Some 1, Some 4], [Some 2, Some 5], [None, Some 5]]\<rparr>\<rparr>
   \<and> ordered_by True ''title''
        \<lparr>columns = [''title'', ''directedBy''],
         rows = [[Some (1::nat), Some 4], [Some 2, Some 5], [None, Some 5]]\<rparr>"
proof -
  have ns: "nargsort_sorts (insertion_nargsort :: bool \<Rightarrow> nat option list \<Rightarrow> nat list)"
    by (rule insertion_nargsort_sorts)
  have r1: "CsvDataProcessor_run insertion_nargsort
        \<lparr>datasource = ''f.csv'', dataset = Some films, result = None, separator = '';''\<rparr>
      = Inr \<lparr>datasource = ''f.csv'', dataset = Some films,
             result = Some \<lparr>columns = [''title'', ''directedBy''],
                             rows = [[Some 3, Some 5], [Some 2, Some 5], [Some 1, None]]\<rparr>,
             separator = '';''\<rparr>"
    by code_simp
  have r2: "TxtDataProcessor_run insertion_nargsort
        \<lparr>datasource = ''f.txt'', dataset = Some films,
         result = Some \<lparr>columns = [''title'', ''directedBy''], rows = [[Some 9, Some 9]]\<rparr>\<rparr>
      = Inr \<lparr>datasource = ''f.txt'', dataset = Some films,
             result = Some \<lparr>columns = [''title'', ''directedBy''],
                             rows = [[Some 9, Some 9], [Some 3, Some 5], [Some 2, Some 5], [Some 1, None]]\<rparr>\<rparr>"
    by code_simp
  have r3: "JSONDataProcessor_run insertion_nargsort
        \<lparr>datasource = ''f.json'', dataset = Some rated_films, result = None\<rparr>
      = Inr \<lparr>datasource = ''f.json'', dataset = Some rated_films,
             result = Some \<lparr>columns = [''title'', ''directedBy''],
                             rows = [[Some 1, Some 4], [Some 2, Some 5], [None, Some 5]]\<rparr>\<rparr>"
    by code_simp
  have o1: "ordered_by False ''title''
        \<lparr>columns = [''title'', ''directedBy''],
         rows = [[Some (3::nat), Some 5], [Some 2, Some 5], [Some 1, None]]\<rparr>"
    by code_simp
  have o2: "ordered_by True ''title''
        \<lparr>columns = [''title'', ''directedBy''],
         rows = [[Some (1::nat), Some 4], [Some 2, Some 5], [None, Some 5]]\<rparr>"
    by code_simp
  note inst = run_title_dominant [OF ns,
      of "\<lparr>datasource = ''f.csv'', dataset = Some films, result = None, separator = '';''\<rparr>" films
         "\<lparr>datasource = ''f.txt'', dataset = Some films,
           result = Some \<lparr>columns = [''title'', ''directedBy''], rows = [[Some 9, Some 9]]\<rparr>\<rparr>" films
         "\<lparr>datasource = ''f.json'', dataset = Some rated_films, result = None\<rparr>" rated_films]
  show ?thesis using inst ns r1 r2 r3 o1 o2 by simp
qed

section \<open>The scenario with three rows\<close>

lemma drop_dateAdded_row:
  "map snd (filter (\<lambda>cv. fst cv \<noteq> ''dateAdded'')
      (zip [''title'', ''directedBy'', ''dateAdded''] r)) = take 2 r"
  by (simp add: zip_Cons1 split: list.splits)

text \<open>
  C4: a delimited-text source is parsed to a table with exactly the columns title,
  directedBy, dateAdded and three rows. On a new processor \<open>read\<close> returns True, and the
  \<open>run\<close> that follows stores a result with exactly the columns title and directedBy and
  exactly three rows (the rows of the source without their third cell), ordered by
  descending title.
\<close>

theorem Csv_read_run_scenario:
  assumes ns: "nargsort_sorts nargsort"
    and rd: "read_csv src '';'' = Inr t"
    and cols: "columns t = [''title'', ''directedBy'', ''dateAdded'']"
    and len: "length (rows t) = 3"
  shows "fst (CsvDataProcessor_read read_csv (CsvDataProcessor_init src)) = True
    \<and> (\<exists>b. CsvDataProcessor_run nargsort
               (snd (snd (CsvDataProcessor_read read_csv (CsvDataProcessor_init src))))
             = Inr \<lparr>datasource = src, dataset = Some t, result = Some b, separator = '';''\<rparr>
          \<and> columns b = [''title'', ''directedBy'']
          \<and> length (rows b) = 3
          \<and> mset (rows b) = mset (map (take 2) (rows t))
          \<and> ordered_by False ''title'' b)"
proof -
  let ?p = "\<lparr>datasource = src, dataset = Some t, result = None, separator = '';''\<rparr>"
  have read: "CsvDataProcessor_read read_csv (CsvDataProcessor_init src) = (True, [], ?p)"
    using rd cols by (simp add: CsvDataProcessor_read_def CsvDataProcessor_init_def)
  have "set [''dateAdded''] \<subseteq> set (columns t)" "''directedBy'' \<notin> set [''dateAdded'']"
    "''title'' \<notin> set [''dateAdded'']" "count_list (columns t) ''directedBy'' = 1"
    "count_list (columns t) ''title'' = 1"
    using cols by simp_all
  from cleaned_sorted_sorts [OF ns this, of False] obtain d0 b where
    d0: "DataFrame_drop t [''dateAdded''] = Inr d0"
    and b: "cleaned_sorted nargsort [''dateAdded''] False (Some t) = Inr b"
    and colsb: "columns b = filter (\<lambda>c. c \<notin> set [''dateAdded'']) (columns t)"
    and rowsb: "mset (rows b) = mset (rows d0)"
    and ord: "ordered_by False ''title'' b" by blast
  have "rows d0 = map (take 2) (rows t)"
    using d0 cols by (auto simp: DataFrame_drop_def drop_dateAdded_row)
  with rowsb have m: "mset (rows b) = mset (map (take 2) (rows t))" by simp
  then have "length (rows b) = length (map (take 2) (rows t))" by (rule mset_eq_length)
  with len have l: "length (rows b) = 3" by simp
  have "CsvDataProcessor_run nargsort ?p
          = Inr \<lparr>datasource = src, dataset = Some t, result = Some b, separator = '';''\<rparr>"
    using b by (simp add: Csv_run_cleaned_sorted pandas_concat_None)
  moreover have "columns b = [''title'', ''directedBy'']" using colsb cols by simp
  ultimately show ?thesis using read m l ord by simp
qed

theorem Csv_read_run_scenario_witness:
  "nargsort_sorts (insertion_nargsort :: bool \<Rightarrow> nat option list \<Rightarrow> nat list)
   \<and> columns films = [''title'', ''directedBy'', ''dateAdded'']
   \<and> length (rows films) = 3
   \<and> fst (CsvDataProcessor_read (\<lambda>src sep. if sep = '';'' then Inr films else Inl ''bad separator'')
           (CsvDataProcessor_init ''films.csv'')) = True
   \<and> CsvDataProcessor_run insertion_nargsort
        (snd (snd (CsvDataProcessor_read (\<lambda>src sep. if sep = '';'' then Inr films else Inl ''bad separator'')
           (CsvDataProcessor_init ''films.csv''))))
      = Inr \<lparr>datasource = ''films.csv'', dataset = Some films,
             result = Some \<lparr>columns = [''title'', ''directedBy''],
                             rows = [[Some 3, Some 5], [Some 2, Some 5], [Some 1, None]]\<rparr>,
             separator = '';''\<rparr>
   \<and> ordered_by False ''title''
        \<lparr>columns = [''title'', ''directedBy''],
         rows = [[Some (3::nat), Some 5], [Some 2, Some 5], [Some 1, None]]\<rparr>"
proof -
  have ns: "nargsort_sorts (insertion_nargsort :: bool \<Rightarrow> nat option list \<Rightarrow> nat list)"
    by (rule insertion_nargsort_sorts)
  have c: "columns films = [''title'', ''directedBy'', ''dateAdded'']" by (simp add: films_def)
  have l: "length (rows films) = 3" by (simp add: films_def)
  have r: "(if '';'' = '';'' then Inr films else Inl ''bad separator'') = (Inr films :: string + nat DataFrame)"
    by simp
  note inst = Csv_read_run_scenario [OF ns, of "\<lambda>src sep. if sep = '';'' then Inr films else Inl ''bad separator''"
      "''films.csv''" films, OF r c l]
  have e1: "fst (CsvDataProcessor_read (\<lambda>src sep. if sep = '';'' then Inr films else Inl ''bad separator'')
           (CsvDataProcessor_init ''films.csv'')) = True"
    using inst by simp
  have e2: "CsvDataProcessor_run insertion_nargsort
        (snd (snd (CsvDataProcessor_read (\<lambda>src sep. if sep = '';'' then Inr films else Inl ''bad separator'')
           (CsvDataProcessor_init ''films.csv''))))
      = Inr \<lparr>datasource = ''films.csv'', dataset = Some films,
             result = Some \<lparr>columns = [''title'', ''directedBy''],
                             rows = [[Some 3, Some 5], [Some 2, Some 5], [Some 1, None]]\<rparr>,
             separator = '';''\<rparr>"
    by code_simp
  have e3: "ordered_by False ''title''
        \<lparr>columns = [''title'', ''directedBy''],
         rows = [[Some (3::nat), Some 5], [Some 2, Some 5], [Some 1, None]]\<rparr>"
    by code_simp
  show ?thesis using ns c l e1 e2 e3 by simp
qed

section \<open>Accumulation\<close>

lemma pandas_concat_length:
  "pandas_concat [res, Some b] = Inr r' \<Longrightarrow>
     length (rows r') = (case res of None \<Rightarrow> 0 | Some r \<Rightarrow> length (rows r)) + length (rows b)"
  by (cases res) (auto simp: pandas_concat_None pandas_concat_Some dest: append_frames_length)

lemma pandas_concat_columns:
  "pandas_concat [res, Some b] = Inr r' \<Longrightarrow>
     set (columns r') \<subseteq> (case res of None \<Rightarrow> {} | Some r \<Rightarrow> set (columns r)) \<union> set (columns b)"
  by (cases res) (auto simp: pandas_concat_None pandas_concat_Some dest: append_frames_columns)

lemma run_Inr_steps:
  assumes "(case cleaned_sorted ns labels asc ds of
        Inl e \<Rightarrow> Inl e
      | Inr b \<Rightarrow> (case pandas_concat [res, Some b] of
                    Inl e \<Rightarrow> Inl e | Inr r \<Rightarrow> Inr (upd r))) = Inr p'"
  shows "\<exists>b r'. cleaned_sorted ns labels asc ds = Inr b
           \<and> pandas_concat [res, Some b] = Inr r' \<and> p' = upd r'"
  using assms by (auto split: sum.splits)

lemma run_grows:
  assumes "(case cleaned_sorted ns labels asc ds of
        Inl e \<Rightarrow> Inl e
      | Inr b \<Rightarrow> (case pandas_concat [res, Some b] of
                    Inl e \<Rightarrow> Inl e | Inr r \<Rightarrow> Inr (upd r))) = Inr p'"
  shows "\<exists>r'. p' = upd r' \<and> (\<forall>r. res = Some r \<longrightarrow> length (rows r) \<le> length (rows r'))"
proof -
  from run_Inr_steps [OF assms] obtain b r' where
    c: "pandas_concat [res, Some b] = Inr r'" and p': "p' = upd r'" by blast
  from pandas_concat_length [OF c] have "\<forall>r. res = Some r \<longrightarrow> length (rows r) \<le> length (rows r')"
    by auto
  with p' show ?thesis by blast
qed

lemma run_twice:
  assumes ns: "nargsort_sorts ns"
    and lab: "set labels \<subseteq> set (columns t)"
    and nd: "''directedBy'' \<notin> set labels" and nt: "''title'' \<notin> set labels"
    and cd: "count_list (columns t) ''directedBy'' = 1"
    and ct: "count_list (columns t) ''title'' = 1"
  shows "\<exists>b. cleaned_sorted ns labels asc (Some t) = Inr b
           \<and> length (rows b) = length (rows t)
           \<and> pandas_concat [None, Some b] = Inr b
           \<and> pandas_concat [Some b, Some b] = Inr \<lparr>columns = columns b, rows = rows b @ rows b\<rparr>"
proof -
  from cleaned_sorted_sorts [OF assms, of asc] obtain d0 b where
    d0: "DataFrame_drop t labels = Inr d0" and b: "cleaned_sorted ns labels asc (Some t) = Inr b"
    and m: "mset (rows b) = mset (rows d0)" by blast
  from m have "length (rows b) = length (rows d0)" by (rule mset_eq_length)
  with DataFrame_drop_length [OF d0] have "length (rows b) = length (rows t)" by simp
  with b show ?thesis
    by (simp add: pandas_concat_None pandas_concat_Some append_frames_same_columns)
qed

text \<open>
  C3: a \<open>run\<close> that returns leaves a result table, also when there was none, with at
  least as many rows as the result had before. On a processor with an empty result whose
  input table has the columns that \<open>run\<close> needs, and with a sorting routine that sorts,
  \<open>run\<close> returns, a second \<open>run\<close> returns too, and the result then holds the rows of the
  first call twice: twice the number of rows of one call, which is the number of rows of the
  input table.
\<close>

theorem result_accumulates:
  "(CsvDataProcessor_run nargsort p = Inr p' \<longrightarrow>
      (\<exists>r'. result p' = Some r' \<and> (\<forall>r. result p = Some r \<longrightarrow> length (rows r) \<le> length (rows r'))))
   \<and> (TxtDataProcessor_run nargsort q = Inr q' \<longrightarrow>
      (\<exists>r'. result q' = Some r' \<and> (\<forall>r. result q = Some r \<longrightarrow> length (rows r) \<le> length (rows r'))))
   \<and> (JSONDataProcessor_run nargsort j = Inr j' \<longrightarrow>
      (\<exists>r'. result j' = Some r' \<and> (\<forall>r. result j = Some r \<longrightarrow> length (rows r) \<le> length (rows r'))))
   \<and> (nargsort_sorts nargsort \<and> dataset p = Some t1 \<and> result p = None
        \<and> ''dateAdded'' \<in> set (columns t1)
        \<and> count_list (columns t1) ''directedBy'' = 1 \<and> count_list (columns t1) ''title'' = 1 \<longrightarrow>
      (\<exists>b r2. CsvDataProcessor_run nargsort p = Inr (p\<lparr>result := Some b\<rparr>)
         \<and> CsvDataProcessor_run nargsort (p\<lparr>result := Some b\<rparr>) = Inr (p\<lparr>result := Some r2\<rparr>)
         \<and> rows r2 = rows b @ rows b
         \<and> length (rows r2) = 2 * length (rows b)
         \<and> length (rows b) = length (rows t1)))
   \<and> (nargsort_sorts nargsort \<and> dataset q = Some t2 \<and> result q = None
        \<and> ''dateAdded'' \<in> set (columns t2)
        \<and> count_list (columns t2) ''directedBy'' = 1 \<and> count_list (columns t2) ''title'' = 1 \<longrightarrow>
      (\<exists>b r2. TxtDataProcessor_run nargsort q = Inr (q\<lparr>result := Some b\<rparr>)
         \<and> TxtDataProcessor_run nargsort (q\<lparr>result := Some b\<rparr>) = Inr (q\<lparr>result := Some r2\<rparr>)
         \<and> rows r2 = rows b @ rows b
         \<and> length (rows r2) = 2 * length (rows b)
         \<and> length (rows b) = length (rows t2)))
   \<and> (nargsort_sorts nargsort \<and> dataset j = Some t3 \<and> result j = None
        \<and> ''dateAdded'' \<in> set (columns t3) \<and> ''avgRating'' \<in> set (columns t3)
        \<and> count_list (columns t3) ''directedBy'' = 1 \<and> count_list (columns t3) ''title'' = 1 \<longrightarrow>
      (\<exists>b r2. JSONDataProcessor_run nargsort j = Inr (j\<lparr>result := Some b\<rparr>)
         \<and> JSONDataProcessor_run nargsort (j\<lparr>result := Some b\<rparr>) = Inr (j\<lparr>result := Some r2\<rparr>)
         \<and> rows r2 = rows b @ rows b
         \<and> length (rows r2) = 2 * length (rows b)
         \<and> length (rows b) = length (rows t3)))"
proof (intro conjI impI)
  assume "CsvDataProcessor_run nargsort p = Inr p'"
  from run_grows [OF this [unfolded Csv_run_cleaned_sorted]]
  show "\<exists>r'. result p' = Some r' \<and> (\<forall>r. result p = Some r \<longrightarrow> length (rows r) \<le> length (rows r'))"
    by auto
next
  assume "TxtDataProcessor_run nargsort q = Inr q'"
  from run_grows [OF this [unfolded Txt_run_cleaned_sorted]]
  show "\<exists>r'. result q' = Some r' \<and> (\<forall>r. result q = Some r \<longrightarrow> length (rows r) \<le> length (rows r'))"
    by auto
next
  assume "JSONDataProcessor_run nargsort j = Inr j'"
  from run_grows [OF this [unfolded JSON_run_cleaned_sorted]]
  show "\<exists>r'. result j' = Some r' \<and> (\<forall>r. result j = Some r \<longrightarrow> length (rows r) \<le> length (rows r'))"
    by auto
next
  assume h: "nargsort_sorts nargsort \<and> dataset p = Some t1 \<and> result p = None
        \<and> ''dateAdded'' \<in> set (columns t1)
        \<and> count_list (columns t1) ''directedBy'' = 1 \<and> count_list (columns t1) ''title'' = 1"
  then have "\<exists>b. cleaned_sorted nargsort [''dateAdded''] False (Some t1) = Inr b
           \<and> length (rows b) = length (rows t1)
           \<and> pandas_concat [None, Some b] = Inr b
           \<and> pandas_concat [Some b, Some b] = Inr \<lparr>columns = columns b, rows = rows b @ rows b\<rparr>"
    by (intro run_twice) simp_all
  then obtain b where b: "cleaned_sorted nargsort [''dateAdded''] False (Some t1) = Inr b"
    "length (rows b) = length (rows t1)" "pandas_concat [None, Some b] = Inr b"
    "pandas_concat [Some b, Some b] = Inr \<lparr>columns = columns b, rows = rows b @ rows b\<rparr>" by blast
  show "\<exists>b r2. CsvDataProcessor_run nargsort p = Inr (p\<lparr>result := Some b\<rparr>)
         \<and> CsvDataProcessor_run nargsort (p\<lparr>result := Some b\<rparr>) = Inr (p\<lparr>result := Some r2\<rparr>)
         \<and> rows r2 = rows b @ rows b
         \<and> length (rows r2) = 2 * length (rows b)
         \<and> length (rows b) = length (rows t1)"
    apply (rule exI [of _ b], rule exI [of _ "\<lparr>columns = columns b, rows = rows b @ rows b\<rparr>"])
    using h b by (simp add: Csv_run_cleaned_sorted)
next
  assume h: "nargsort_sorts nargsort \<and> dataset q = Some t2 \<and> result q = None
        \<and> ''dateAdded'' \<in> set (columns t2)
        \<and> count_list (columns t2) ''directedBy'' = 1 \<and> count_list (columns t2) ''title'' = 1"
  then have "\<exists>b. cleaned_sorted nargsort [''dateAdded''] False (Some t2) = Inr b
           \<and> length (rows b) = length (rows t2)
           \<and> pandas_concat [None, Some b] = Inr b
           \<and> pandas_concat [Some b, Some b] = Inr \<lparr>columns = columns b, rows = rows b @ rows b\<rparr>"
    by (intro run_twice) simp_all
  then obtain b where b: "cleaned_sorted nargsort [''dateAdded''] False (Some t2) = Inr b"
    "length (rows b) = length (rows t2)" "pandas_concat [None, Some b] = Inr b"
    "pandas_concat [Some b, Some b] = Inr \<lparr>columns = columns b, rows = rows b @ rows b\<rparr>" by blast
  show "\<exists>b r2. TxtDataProcessor_run nargsort q = Inr (q\<lparr>result := Some b\<rparr>)
         \<and> TxtDataProcessor_run nargsort (q\<lparr>result := Some b\<rparr>) = Inr (q\<lparr>result := Some r2\<rparr>)
         \<and> rows r2 = rows b @ rows b
         \<and> length (rows r2) = 2 * length (rows b)
         \<and> length (rows b) = length (rows t2)"
    apply (rule exI [of _ b], rule exI [of _ "\<lparr>columns = columns b, rows = rows b @ rows b\<rparr>"])
    using h b by (simp add: Txt_run_cleaned_sorted)
next
  assume h: "nargsort_sorts nargsort \<and> dataset j = Some t3 \<and> result j = None
        \<and> ''dateAdded'' \<in> set (columns t3) \<and> ''avgRating'' \<in> set (columns t3)
        \<and> count_list (columns t3) ''directedBy'' = 1 \<and> count_list (columns t3) ''title'' = 1"
  then have "\<exists>b. cleaned_sorted nargsort [''dateAdded'', ''avgRating''] True (Some t3) = Inr b
           \<and> length (rows b) = length (rows t3)
           \<and> pandas_concat [None, Some b] = Inr b
           \<and> pandas_concat [Some b, Some b] = Inr \<lparr>columns = columns b, rows = rows b @ rows b\<rparr>"
    by (intro run_twice) simp_all
  then obtain b where b: "cleaned_sorted nargsort [''dateAdded'', ''avgRating''] True (Some t3) = Inr b"
    "length (rows b) = length (rows t3)" "pandas_concat [None, Some b] = Inr b"
    "pandas_concat [Some b, Some b] = Inr \<lparr>columns = columns b, rows = rows b @ rows b\<rparr>" by blast
  show "\<exists>b r2. JSONDataProcessor_run nargsort j = Inr (j\<lparr>result := Some b\<rparr>)
         \<and> JSONDataProcessor_run nargsort (j\<lparr>result := Some b\<rparr>) = Inr (j\<lparr>result := Some r2\<rparr>)
         \<and> rows r2 = rows b @ rows b
         \<and> length (rows r2) = 2 * length (rows b)
         \<and> length (rows b) = length (rows t3)"
    apply (rule exI [of _ b], rule exI [of _ "\<lparr>columns = columns b, rows = rows b @ rows b\<rparr>"])
    using h b by (simp add: JSON_run_cleaned_sorted)
qed

theorem result_accumulates_witness:
  "nargsort_sorts (insertion_nargsort :: bool \<Rightarrow> nat option list \<Rightarrow> nat list)
   \<and> length (rows films) = 3 \<and> length (rows rated_films) = 3
   \<and> CsvDataProcessor_run insertion_nargsort
        \<lparr>datasource = ''f.csv'', dataset = Some films, result = None, separator = '';''\<rparr>
      = Inr \<lparr>datasource = ''f.csv'', dataset = Some films, result = (Some \<lparr>columns = [''title'', ''directedBy''], rows = [[Some 3, Some 5], [Some 2, Some 5], [Some 1, None]]\<rparr>), separator = '';''\<rparr>
   \<and> CsvDataProcessor_run insertion_nargsort
        \<lparr>datasource = ''f.csv'', dataset = Some films, result = (Some \<lparr>columns = [''title'', ''directedBy''], rows = [[Some 3, Some 5], [Some 2, Some 5], [Some 1, None]]\<rparr>), separator = '';''\<rparr>
      = Inr \<lparr>datasource = ''f.csv'', dataset = Some films, result = (Some \<lparr>columns = [''title'', ''directedBy''],
              rows = [[Some 3, Some 5], [Some 2, Some 5], [Some 1, None], [Some 3, Some 5], [Some 2, Some 5], [Some 1, None]]\<rparr>), separator = '';''\<rparr>
   \<and> TxtDataProcessor_run insertion_nargsort
        \<lparr>datasource = ''f.txt'', dataset = Some films, result = None\<rparr>
      = Inr \<lparr>datasource = ''f.txt'', dataset = Some films, result = (Some \<lparr>columns = [''title'', ''directedBy''], rows = [[Some 3, Some 5], [Some 2, Some 5], [Some 1, None]]\<rparr>)\<rparr>
   \<and> TxtDataProcessor_run insertion_nargsort
        \<lparr>datasource = ''f.txt'', dataset = Some films, result = (Some \<lparr>columns = [''title'', ''directedBy''], rows = [[Some 3, Some 5], [Some 2, Some 5], [Some 1, None]]\<rparr>)\<rparr>
      = Inr \<lparr>datasource = ''f.txt'', dataset = Some films, result = (Some \<lparr>columns = [''title'', ''directedBy''],
              rows = [[Some 3, Some 5], [Some 2, Some 5], [Some 1, None], [Some 3, Some 5], [Some 2, Some 5], [Some 1, None]]\<rparr>)\<rparr>
   \<and> JSONDataProcessor_run insertion_nargsort
        \<lparr>datasource = ''f.json'', dataset = Some rated_films, result = None\<rparr>
      = Inr \<lparr>datasource = ''f.json'', dataset = Some rated_films, result = (Some \<lparr>columns = [''title'', ''directedBy''], rows = [[Some 1, Some 4], [Some 2, Some 5], [None, Some 5]]\<rparr>)\<rparr>
   \<and> JSONDataProcessor_run insertion_nargsort
        \<lparr>datasource = ''f.json'', dataset = Some rated_films, result = (Some \<lparr>columns = [''title'', ''directedBy''], rows = [[Some 1, Some 4], [Some 2, Some 5], [None, Some 5]]\<rparr>)\<rparr>
      = Inr \<lparr>datasource = ''f.json'', dataset = Some rated_films, result = (Some \<lparr>columns = [''title'', ''directedBy''],
              rows = [[Some 1, Some 4], [Some 2, Some 5], [None, Some 5], [Some 1, Some 4], [Some 2, Some 5], [None, Some 5]]\<rparr>)\<rparr>"
proof -
  have ns: "nargsort_sorts (insertion_nargsort :: bool \<Rightarrow> nat option list \<Rightarrow> nat list)"
    by (rule insertion_nargsort_sorts)
  have e0: "CsvDataProcessor_run insertion_nargsort
        \<lparr>datasource = ''f.csv'', dataset = Some films, result = None, separator = '';''\<rparr>
      = Inr \<lparr>datasource = ''f.csv'', dataset = Some films, result = (Some \<lparr>columns = [''title'', ''directedBy''], rows = [[Some 3, Some 5], [Some 2, Some 5], [Some 1, None]]\<rparr>), separator = '';''\<rparr>"
    by code_simp
  have e1: "CsvDataProcessor_run insertion_nargsort
        \<lparr>datasource = ''f.csv'', dataset = Some films, result = (Some \<lparr>columns = [''title'', ''directedBy''], rows = [[Some 3, Some 5], [Some 2, Some 5], [Some 1, None]]\<rparr>), separator = '';''\<rparr>
      = Inr \<lparr>datasource = ''f.csv'', dataset = Some films, result = (Some \<lparr>columns = [''title'', ''directedBy''],
              rows = [[Some 3, Some 5], [Some 2, Some 5], [Some 1, None], [Some 3, Some 5], [Some 2, Some 5], [Some 1, None]]\<rparr>), separator = '';''\<rparr>"
    by code_simp
  have e2: "TxtDataProcessor_run insertion_nargsort
        \<lparr>datasource = ''f.txt'', dataset = Some films, result = None\<rparr>
      = Inr \<lparr>datasource = ''f.txt'', dataset = Some films, result = (Some \<lparr>columns = [''title'', ''directedBy''], rows = [[Some 3, Some 5], [Some 2, Some 5], [Some 1, None]]\<rparr>)\<rparr>"
    by code_simp
  have e3: "TxtDataProcessor_run insertion_nargsort
        \<lparr>datasource = ''f.txt'', dataset = Some films, result = (Some \<lparr>columns = [''title'', ''directedBy''], rows = [[Some 3, Some 5], [Some 2, Some 5], [Some 1, None]]\<rparr>)\<rparr>
      = Inr \<lparr>datasource = ''f.txt'', dataset = Some films, result = (Some \<lparr>columns = [''title'', ''directedBy''],
              rows = [[Some 3, Some 5], [Some 2, Some 5], [Some 1, None], [Some 3, Some 5], [Some 2, Some 5], [Some 1, None]]\<rparr>)\<rparr>"
    by code_simp
  have e4: "JSONDataProcessor_run insertion_nargsort
        \<lparr>datasource = ''f.json'', dataset = Some rated_films, result = None\<rparr>
      = Inr \<lparr>datasource = ''f.json'', dataset = Some rated_films, result = (Some \<lparr>columns = [''title'', ''directedBy''], rows = [[Some 1, Some 4], [Some 2, Some 5], [None, Some 5]]\<rparr>)\<rparr>"
    by code_simp
  have e5: "JSONDataProcessor_run insertion_nargsort
        \<lparr>datasource = ''f.json'', dataset = Some rated_films, result = (Some \<lparr>columns = [''title'', ''directedBy''], rows = [[Some 1, Some 4], [Some 2, Some 5], [None, Some 5]]\<rparr>)\<rparr>
      = Inr \<lparr>datasource = ''f.json'', dataset = Some rated_films, result = (Some \<lparr>columns = [''title'', ''directedBy''],
              rows = [[Some 1, Some 4], [Some 2, Some 5], [None, Some 5], [Some 1, Some 4], [Some 2, Some 5], [None, Some 5]]\<rparr>)\<rparr>"
    by code_simp
  have l: "length (rows films) = 3 \<and> length (rows rated_films) = 3"
    by (simp add: films_def rated_films_def)
  note first = result_accumulates [of insertion_nargsort
      "\<lparr>datasource = ''f.csv'', dataset = Some films, result = None, separator = '';''\<rparr>" "\<lparr>datasource = ''f.csv'', dataset = Some films, result = (Some \<lparr>columns = [''title'', ''directedBy''], rows = [[Some 3, Some 5], [Some 2, Some 5], [Some 1, None]]\<rparr>), separator = '';''\<rparr>"
      "\<lparr>datasource = ''f.txt'', dataset = Some films, result = None\<rparr>" "\<lparr>datasource = ''f.txt'', dataset = Some films, result = (Some \<lparr>columns = [''title'', ''directedBy''], rows = [[Some 3, Some 5], [Some 2, Some 5], [Some 1, None]]\<rparr>)\<rparr>"
      "\<lparr>datasource = ''f.json'', dataset = Some rated_films, result = None\<rparr>" "\<lparr>datasource = ''f.json'', dataset = Some rated_films, result = (Some \<lparr>columns = [''title'', ''directedBy''], rows = [[Some 1, Some 4], [Some 2, Some 5], [None, Some 5]]\<rparr>)\<rparr>"
      films films rated_films]
  note second = result_accumulates [of insertion_nargsort
      "\<lparr>datasource = ''f.csv'', dataset = Some films, result = (Some \<lparr>columns = [''title'', ''directedBy''], rows = [[Some 3, Some 5], [Some 2, Some 5], [Some 1, None]]\<rparr>), separator = '';''\<rparr>" "\<lparr>datasource = ''f.csv'', dataset = Some films, result = (Some \<lparr>columns = [''title'', ''directedBy''],
              rows = [[Some 3, Some 5], [Some 2, Some 5], [Some 1, None], [Some 3, Some 5], [Some 2, Some 5], [Some 1, None]]\<rparr>), separator = '';''\<rparr>"
      "\<lparr>datasource = ''f.txt'', dataset = Some films, result = (Some \<lparr>columns = [''title'', ''directedBy''], rows = [[Some 3, Some 5], [Some 2, Some 5], [Some 1, None]]\<rparr>)\<rparr>" "\<lparr>datasource = ''f.txt'', dataset = Some films, result = (Some \<lparr>columns = [''title'', ''directedBy''],
              rows = [[Some 3, Some 5], [Some 2, Some 5], [Some 1, None], [Some 3, Some 5], [Some 2, Some 5], [Some 1, None]]\<rparr>)\<rparr>"
      "\<lparr>datasource = ''f.json'', dataset = Some rated_films, result = (Some \<lparr>columns = [''title'', ''directedBy''], rows = [[Some 1, Some 4], [Some 2, Some 5], [None, Some 5]]\<rparr>)\<rparr>" "\<lparr>datasource = ''f.json'', dataset = Some rated_films, result = (Some \<lparr>columns = [''title'', ''directedBy''],
              rows = [[Some 1, Some 4], [Some 2, Some 5], [None, Some 5], [Some 1, Some 4], [Some 2, Some 5], [None, Some 5]]\<rparr>)\<rparr>"
      films films rated_films]
  show ?thesis using first second ns l e0 e1 e2 e3 e4 e5 by simp
qed

section \<open>The dropped columns\<close>

lemma run_result_columns:
  assumes run: "(case cleaned_sorted ns labels asc ds of
        Inl e \<Rightarrow> Inl e
      | Inr b \<Rightarrow> (case pandas_concat [res, Some b] of
                    Inl e \<Rightarrow> Inl e | Inr r \<Rightarrow> Inr (upd r))) = Inr p'"
    and old: "\<And>r. res = Some r \<Longrightarrow> set (columns r) \<inter> set labels = {}"
  shows "\<exists>r'. p' = upd r' \<and> set (columns r') \<inter> set labels = {}"
proof -
  from run_Inr_steps [OF run] obtain b r' where
    b: "cleaned_sorted ns labels asc ds = Inr b"
    and c: "pandas_concat [res, Some b] = Inr r'" and p': "p' = upd r'" by blast
  from cleaned_sorted_columns [OF b] have "set (columns b) \<inter> set labels = {}" by auto
  moreover note pandas_concat_columns [OF c]
  ultimately have "set (columns r') \<inter> set labels = {}"
    using old by (cases res) auto
  with p' show ?thesis by blast
qed

lemma Csv_read_result: "CsvDataProcessor_read read_csv p = (b, out, p') \<Longrightarrow> result p' = result p"
  by (auto simp: CsvDataProcessor_read_def Let_def split: sum.splits if_splits)

lemma Txt_read_result: "TxtDataProcessor_read read_table p = (b, out, p') \<Longrightarrow> result p' = result p"
  by (auto simp: TxtDataProcessor_read_def Let_def split: sum.splits if_splits)

lemma JSON_read_result: "JSONDataProcessor_read read_json p = (b, out, p') \<Longrightarrow> result p' = result p"
  by (auto simp: JSONDataProcessor_read_def Let_def split: sum.splits if_splits)

lemma Csv_reachable_result:
  "Csv_reachable p \<Longrightarrow> result p = Some r \<Longrightarrow> set (columns r) \<inter> set [''dateAdded''] = {}"
proof (induction arbitrary: r rule: Csv_reachable.induct)
  case (Csv_init src)
  then show ?case by (simp add: CsvDataProcessor_init_def)
next
  case (Csv_read p read_csv b out p')
  then show ?case by (simp add: Csv_read_result)
next
  case (Csv_run p nargsort p')
  from run_result_columns [OF Csv_run.hyps(2) [unfolded Csv_run_cleaned_sorted] Csv_run.IH]
  obtain r' where "p' = p\<lparr>result := Some r'\<rparr>" "set (columns r') \<inter> set [''dateAdded''] = {}"
    by blast
  with Csv_run.prems show ?case by simp
qed

lemma Txt_reachable_result:
  "Txt_reachable p \<Longrightarrow> result p = Some r \<Longrightarrow> set (columns r) \<inter> set [''dateAdded''] = {}"
proof (induction arbitrary: r rule: Txt_reachable.induct)
  case (Txt_init src)
  then show ?case by (simp add: DataProcessor_init_def)
next
  case (Txt_read p read_table b out p')
  then show ?case by (simp add: Txt_read_result)
next
  case (Txt_run p nargsort p')
  from run_result_columns [OF Txt_run.hyps(2) [unfolded Txt_run_cleaned_sorted] Txt_run.IH]
  obtain r' where "p' = p\<lparr>result := Some r'\<rparr>" "set (columns r') \<inter> set [''dateAdded''] = {}"
    by blast
  with Txt_run.prems show ?case by simp
qed

lemma JSON_reachable_result:
  "JSON_reachable p \<Longrightarrow> result p = Some r \<Longrightarrow>
     set (columns r) \<inter> set [''dateAdded'', ''avgRating''] = {}"
proof (induction arbitrary: r rule: JSON_reachable.induct)
  case (JSON_init src)
  then show ?case by (simp add: DataProcessor_init_def)
next
  case (JSON_read p read_json b out p')
  then show ?case by (simp add: JSON_read_result)
next
  case (JSON_run p nargsort p')
  from run_result_columns [OF JSON_run.hyps(2) [unfolded JSON_run_cleaned_sorted] JSON_run.IH]
  obtain r' where "p' = p\<lparr>result := Some r'\<rparr>"
    "set (columns r') \<inter> set [''dateAdded'', ''avgRating''] = {}"
    by blast
  with JSON_run.prems show ?case by simp
qed

text \<open>
  C7: on every processor that was constructed and then taken through \<open>read\<close> and \<open>run\<close>
  calls, a \<open>run\<close> that returns leaves a result table without the dropped columns: without
  dateAdded for the delimited-text and the whitespace-text processor, without dateAdded
  and avgRating for the processor of line-delimited records. A \<open>run\<close> that raises leaves
  the processor as it was, and the result table of such a processor, when it has one, is
  without these columns too.
\<close>

theorem dropped_columns_absent:
  "(Csv_reachable p \<and> CsvDataProcessor_run nargsort p = Inr p' \<longrightarrow>
      (\<exists>r. result p' = Some r \<and> ''dateAdded'' \<notin> set (columns r)))
   \<and> (Txt_reachable q \<and> TxtDataProcessor_run nargsort q = Inr q' \<longrightarrow>
      (\<exists>r. result q' = Some r \<and> ''dateAdded'' \<notin> set (columns r)))
   \<and> (JSON_reachable j \<and> JSONDataProcessor_run nargsort j = Inr j' \<longrightarrow>
      (\<exists>r. result j' = Some r \<and> ''dateAdded'' \<notin> set (columns r) \<and> ''avgRating'' \<notin> set (columns r)))
   \<and> (Csv_reachable p \<and> result p = Some pr \<longrightarrow> ''dateAdded'' \<notin> set (columns pr))
   \<and> (Txt_reachable q \<and> result q = Some qr \<longrightarrow> ''dateAdded'' \<notin> set (columns qr))
   \<and> (JSON_reachable j \<and> result j = Some jr \<longrightarrow>
      ''dateAdded'' \<notin> set (columns jr) \<and> ''avgRating'' \<notin> set (columns jr))"
proof (intro conjI impI)
  assume h: "Csv_reachable p \<and> CsvDataProcessor_run nargsort p = Inr p'"
  then have reach: "Csv_reachable p'" by (blast intro: Csv_run)
  from h have run: "CsvDataProcessor_run nargsort p = Inr p'" by simp
  from run_Inr_steps [OF run [unfolded Csv_run_cleaned_sorted]]
  obtain r where r: "result p' = Some r" by auto
  from Csv_reachable_result [OF reach r]
  show "\<exists>r. result p' = Some r \<and> ''dateAdded'' \<notin> set (columns r)"
    using r by simp
next
  assume h: "Txt_reachable q \<and> TxtDataProcessor_run nargsort q = Inr q'"
  then have reach: "Txt_reachable q'" by (blast intro: Txt_run)
  from h have run: "TxtDataProcessor_run nargsort q = Inr q'" by simp
  from run_Inr_steps [OF run [unfolded Txt_run_cleaned_sorted]]
  obtain r where r: "result q' = Some r" by auto
  from Txt_reachable_result [OF reach r]
  show "\<exists>r. result q' = Some r \<and> ''dateAdded'' \<notin> set (columns r)"
    using r by simp
next
  assume h: "JSON_reachable j \<and> JSONDataProcessor_run nargsort j = Inr j'"
  then have reach: "JSON_reachable j'" by (blast intro: JSON_run)
  from h have run: "JSONDataProcessor_run nargsort j = Inr j'" by simp
  from run_Inr_steps [OF run [unfolded JSON_run_cleaned_sorted]]
  obtain r where r: "result j' = Some r" by auto
  from JSON_reachable_result [OF reach r]
  show "\<exists>r. result j' = Some r \<and> ''dateAdded'' \<notin> set (columns r)
      \<and> ''avgRating'' \<notin> set (columns r)"
    using r by simp
next
  assume "Csv_reachable p \<and> result p = Some pr"
  then show "''dateAdded'' \<notin> set (columns pr)"
    using Csv_reachable_result [of p pr] by simp
next
  assume "Txt_reachable q \<and> result q = Some qr"
  then show "''dateAdded'' \<notin> set (columns qr)"
    using Txt_reachable_result [of q qr] by simp
next
  assume h: "JSON_reachable j \<and> result j = Some jr"
  then show "''dateAdded'' \<notin> set (columns jr)"
    using JSON_reachable_result [of j jr] by simp
  from h show "''avgRating'' \<notin> set (columns jr)"
    using JSON_reachable_result [of j jr] by simp
qed

theorem dropped_columns_absent_witness:
  "Csv_reachable
      \<lparr>datasource = ''f.csv'', dataset = Some films, result = (Some \<lparr>columns = [''title'', ''directedBy''], rows = [[Some 3, Some 5], [Some 2, Some 5], [Some 1, None]]\<rparr>), separator = '';''\<rparr>
   \<and> CsvDataProcessor_run insertion_nargsort
      \<lparr>datasource = ''f.csv'', dataset = Some films, result = (Some \<lparr>columns = [''title'', ''directedBy''], rows = [[Some 3, Some 5], [Some 2, Some 5], [Some 1, None]]\<rparr>), separator = '';''\<rparr>
     = Inr \<lparr>datasource = ''f.csv'', dataset = Some films, result = (Some \<lparr>columns = [''title'', ''directedBy''],
              rows = [[Some 3, Some 5], [Some 2, Some 5], [Some 1, None], [Some 3, Some 5], [Some 2, Some 5], [Some 1, None]]\<rparr>), separator = '';''\<rparr>
   \<and> ''dateAdded'' \<notin> set (columns
        \<lparr>columns = [''title'', ''directedBy''],
              rows = [[Some 3, Some 5], [Some 2, Some 5], [Some 1, None], [Some 3, Some 5], [Some 2, Some 5], [Some 1, None]]\<rparr>)
   \<and> Txt_reachable
      \<lparr>datasource = ''f.txt'', dataset = Some films, result = None\<rparr>
   \<and> TxtDataProcessor_run insertion_nargsort
      \<lparr>datasource = ''f.txt'', dataset = Some films, result = None\<rparr>
     = Inr \<lparr>datasource = ''f.txt'', dataset = Some films, result = (Some \<lparr>columns = [''title'', ''directedBy''], rows = [[Some 3, Some 5], [Some 2, Some 5], [Some 1, None]]\<rparr>)\<rparr>
   \<and> ''dateAdded'' \<notin> set (columns
        \<lparr>columns = [''title'', ''directedBy''], rows = [[Some 3, Some 5], [Some 2, Some 5], [Some 1, None]]\<rparr>)
   \<and> JSON_reachable
      \<lparr>datasource = ''f.json'', dataset = Some rated_films, result = None\<rparr>
   \<and> JSONDataProcessor_run insertion_nargsort
      \<lparr>datasource = ''f.json'', dataset = Some rated_films, result = None\<rparr>
     = Inr \<lparr>datasource = ''f.json'', dataset = Some rated_films, result = (Some \<lparr>columns = [''title'', ''directedBy''], rows = [[Some 1, Some 4], [Some 2, Some 5], [None, Some 5]]\<rparr>)\<rparr>
   \<and> ''dateAdded'' \<notin> set (columns
        \<lparr>columns = [''title'', ''directedBy''], rows = [[Some 1, Some 4], [Some 2, Some 5], [None, Some 5]]\<rparr>)
   \<and> ''avgRating'' \<notin> set (columns
        \<lparr>columns = [''title'', ''directedBy''], rows = [[Some 1, Some 4], [Some 2, Some 5], [None, Some 5]]\<rparr>)"
proof -
  have c0: "Csv_reachable (CsvDataProcessor_init ''f.csv'' :: (string, nat) CsvDataProcessor)"
    by (rule Csv_init)
  have c1: "CsvDataProcessor_read (\<lambda>src sep. Inr films) (CsvDataProcessor_init ''f.csv'')
      = (True, [], \<lparr>datasource = ''f.csv'', dataset = Some films, result = None, separator = '';''\<rparr>)"
    by (simp add: CsvDataProcessor_read_def CsvDataProcessor_init_def films_def)
  have c2: "CsvDataProcessor_run insertion_nargsort
      \<lparr>datasource = ''f.csv'', dataset = Some films, result = None, separator = '';''\<rparr>
     = Inr \<lparr>datasource = ''f.csv'', dataset = Some films, result = (Some \<lparr>columns = [''title'', ''directedBy''], rows = [[Some 3, Some 5], [Some 2, Some 5], [Some 1, None]]\<rparr>), separator = '';''\<rparr>"
    by code_simp
  have c3: "CsvDataProcessor_run insertion_nargsort
      \<lparr>datasource = ''f.csv'', dataset = Some films, result = (Some \<lparr>columns = [''title'', ''directedBy''], rows = [[Some 3, Some 5], [Some 2, Some 5], [Some 1, None]]\<rparr>), separator = '';''\<rparr>
     = Inr \<lparr>datasource = ''f.csv'', dataset = Some films, result = (Some \<lparr>columns = [''title'', ''directedBy''],
              rows = [[Some 3, Some 5], [Some 2, Some 5], [Some 1, None], [Some 3, Some 5], [Some 2, Some 5], [Some 1, None]]\<rparr>), separator = '';''\<rparr>"
    by code_simp
  have c4: "Csv_reachable
      \<lparr>datasource = ''f.csv'', dataset = Some films, result = (Some \<lparr>columns = [''title'', ''directedBy''], rows = [[Some 3, Some 5], [Some 2, Some 5], [Some 1, None]]\<rparr>), separator = '';''\<rparr>"
    by (rule Csv_run [OF Csv_read [OF c0 c1] c2])
  have t0: "Txt_reachable (DataProcessor_init ''f.txt'' :: (string, nat) DataProcessor)"
    by (rule Txt_init)
  have t1: "TxtDataProcessor_read (\<lambda>src. Inr films) (DataProcessor_init ''f.txt'')
      = (True, [], \<lparr>datasource = ''f.txt'', dataset = Some films, result = None\<rparr>)"
    by (simp add: TxtDataProcessor_read_def DataProcessor_init_def films_def)
  have t2: "TxtDataProcessor_run insertion_nargsort
      \<lparr>datasource = ''f.txt'', dataset = Some films, result = None\<rparr>
     = Inr \<lparr>datasource = ''f.txt'', dataset = Some films, result = (Some \<lparr>columns = [''title'', ''directedBy''], rows = [[Some 3, Some 5], [Some 2, Some 5], [Some 1, None]]\<rparr>)\<rparr>"
    by code_simp
  have t3: "Txt_reachable
      \<lparr>datasource = ''f.txt'', dataset = Some films, result = None\<rparr>"
    by (rule Txt_read [OF t0 t1])
  have j0: "JSON_reachable (DataProcessor_init ''f.json'' :: (string, nat) DataProcessor)"
    by (rule JSON_init)
  have j1: "JSONDataProcessor_read (\<lambda>src. Inr rated_films) (DataProcessor_init ''f.json'')
      = (True, [], \<lparr>datasource = ''f.json'', dataset = Some rated_films, result = None\<rparr>)"
    by (simp add: JSONDataProcessor_read_def DataProcessor_init_def rated_films_def)
  have j2: "JSONDataProcessor_run insertion_nargsort
      \<lparr>datasource = ''f.json'', dataset = Some rated_films, result = None\<rparr>
     = Inr \<lparr>datasource = ''f.json'', dataset = Some rated_films, result = (Some \<lparr>columns = [''title'', ''directedBy''], rows = [[Some 1, Some 4], [Some 2, Some 5], [None, Some 5]]\<rparr>)\<rparr>"
    by code_simp
  have j3: "JSON_reachable
      \<lparr>datasource = ''f.json'', dataset = Some rated_films, result = None\<rparr>"
    by (rule JSON_read [OF j0 j1])
  note inst = dropped_columns_absent [of
      "\<lparr>datasource = ''f.csv'', dataset = Some films, result = (Some \<lparr>columns = [''title'', ''directedBy''], rows = [[Some 3, Some 5], [Some 2, Some 5], [Some 1, None]]\<rparr>), separator = '';''\<rparr>"
      insertion_nargsort
      "\<lparr>datasource = ''f.csv'', dataset = Some films, result = (Some \<lparr>columns = [''title'', ''directedBy''],
              rows = [[Some 3, Some 5], [Some 2, Some 5], [Some 1, None], [Some 3, Some 5], [Some 2, Some 5], [Some 1, None]]\<rparr>), separator = '';''\<rparr>"
      "\<lparr>datasource = ''f.txt'', dataset = Some films, result = None\<rparr>"
      "\<lparr>datasource = ''f.txt'', dataset = Some films, result = (Some \<lparr>columns = [''title'', ''directedBy''], rows = [[Some 3, Some 5], [Some 2, Some 5], [Some 1, None]]\<rparr>)\<rparr>"
      "\<lparr>datasource = ''f.json'', dataset = Some rated_films, result = None\<rparr>"
      "\<lparr>datasource = ''f.json'', dataset = Some rated_films, result = (Some \<lparr>columns = [''title'', ''directedBy''], rows = [[Some 1, Some 4], [Some 2, Some 5], [None, Some 5]]\<rparr>)\<rparr>"]
  show ?thesis using inst c3 c4 t2 t3 j2 j3 by simp
qed

section \<open>Successive runs\<close>

lemma cell_nth:
  assumes "distinct cs" "length r = length cs" "i < length cs"
  shows "cell cs r (cs ! i) = r ! i"
  using assms by (simp add: cell_def map_of_zip_nth)

lemma reindex_same:
  assumes "distinct cs" "length r = length cs"
  shows "reindex cs cs r = r"
  using assms by (auto simp: reindex_def cell_nth intro!: nth_equalityI)

lemma length_reindex: "length (reindex cs u r) = length u"
  by (simp add: reindex_def)

lemma drop_row_length:
  assumes "length r = length cs"
  shows "length (filter (\<lambda>cv. P (fst cv)) (zip cs r)) = length (filter P cs)"
proof -
  have "map fst (filter (\<lambda>cv. P (fst cv)) (zip cs r)) = filter P (map fst (zip cs r))"
    by (simp add: filter_map comp_def)
  also have "map fst (zip cs r) = cs" using assms by simp
  finally show ?thesis by (metis length_map)
qed

lemma DataFrame_drop_rectangular:
  assumes "DataFrame_drop t labels = Inr d" "rectangular t"
  shows "rectangular d"
proof (cases "set labels \<subseteq> set (columns t)")
  case True
  with assms show ?thesis
    by (auto simp: DataFrame_drop_Inr rectangular_def list_all_iff
        drop_row_length [where P = "\<lambda>c. c \<notin> set labels"])
next
  case False
  with assms show ?thesis by (simp add: DataFrame_drop_Inl)
qed

lemma sort_values_rectangular:
  assumes "sort_values ns df c asc = Inr d" "rectangular df"
  shows "rectangular d"
  using sort_values_Inr [OF assms(1)] assms(2) by (auto simp: rectangular_def list_all_iff)

lemma cleaned_sorted_rectangular:
  assumes "cleaned_sorted ns labels asc (Some t) = Inr b" "rectangular t"
  shows "rectangular b"
  using assms
  by (auto simp: cleaned_sorted_def remove_col_by_name_def sort_data_by_col_def
      split: sum.splits
      dest!: DataFrame_drop_rectangular dest: sort_values_rectangular)

lemma filter_known_columns: "set b \<subseteq> set u \<Longrightarrow> filter (\<lambda>c. c \<notin> set u) b = []"
  by (auto simp: filter_empty_conv)

lemma append_frames_again:
  assumes a: "append_frames r b = Inr r1" and rect: "rectangular b"
  shows "append_frames r1 b
           = Inr \<lparr>columns = columns r1, rows = rows r1 @ drop (length (rows r)) (rows r1)\<rparr>"
proof (cases "columns r = columns b")
  case True
  with a have "r1 = \<lparr>columns = columns r, rows = rows r @ rows b\<rparr>"
    by (simp add: append_frames_def)
  with True show ?thesis by (simp add: append_frames_def)
next
  case False
  let ?u = "columns r @ filter (\<lambda>c. c \<notin> set (columns r)) (columns b)"
  from False a have d: "distinct (columns r)" "distinct (columns b)"
    and r1: "r1 = \<lparr>columns = ?u,
        rows = map (reindex (columns r) ?u) (rows r) @ map (reindex (columns b) ?u) (rows b)\<rparr>"
    by (auto simp: append_frames_def Let_def split: if_splits)
  have du: "distinct ?u" using d by auto
  have tail: "drop (length (rows r)) (rows r1) = map (reindex (columns b) ?u) (rows b)"
    by (simp add: r1)
  show ?thesis
  proof (cases "?u = columns b")
    case True
    have "map (reindex (columns b) ?u) (rows b) = rows b"
      using rect d(2) unfolding True
      by (auto simp: rectangular_def list_all_iff reindex_same intro!: map_idI)
    with tail have "drop (length (rows r)) (rows r1) = rows b" by simp
    moreover have "columns r1 = columns b" using True by (simp add: r1)
    ultimately show ?thesis by (simp add: append_frames_def)
  next
    case neq: False
    have sub: "filter (\<lambda>c. c \<notin> set ?u) (columns b) = []"
      by (rule filter_known_columns) auto
    have "map (reindex ?u ?u) (rows r1) = rows r1"
      using du by (auto simp: r1 reindex_same length_reindex intro!: map_idI)
    moreover have "columns r1 = ?u" by (simp add: r1)
    ultimately show ?thesis
      using neq du d(2) sub tail by (simp add: append_frames_def Let_def del: filter_append)
  qed
qed

lemma pandas_concat_again:
  assumes c: "pandas_concat [res, Some b] = Inr r1" and rect: "rectangular b"
  shows "pandas_concat [Some r1, Some b]
           = Inr \<lparr>columns = columns r1,
                  rows = rows r1 @ drop (case res of None \<Rightarrow> 0 | Some r \<Rightarrow> length (rows r)) (rows r1)\<rparr>"
proof (cases res)
  case None
  with c have "r1 = b" by (simp add: pandas_concat_None)
  with None show ?thesis by (simp add: pandas_concat_Some append_frames_same_columns)
next
  case (Some r)
  with c have "append_frames r b = Inr r1" by (simp add: pandas_concat_Some)
  from append_frames_again [OF this rect] Some show ?thesis by (simp add: pandas_concat_Some)
qed

lemma run_again:
  assumes run: "(case cleaned_sorted ns labels asc (Some t) of
        Inl e \<Rightarrow> Inl e
      | Inr b \<Rightarrow> (case pandas_concat [res, Some b] of
                    Inl e \<Rightarrow> Inl e | Inr r \<Rightarrow> Inr (upd r))) = Inr p1"
    and rect: "rectangular t"
  shows "\<exists>b r1 r2. p1 = upd r1
           \<and> cleaned_sorted ns labels asc (Some t) = Inr b
           \<and> pandas_concat [Some r1, Some b] = Inr r2
           \<and> columns r2 = columns r1
           \<and> rows r2 = rows r1 @ drop (case res of None \<Rightarrow> 0 | Some r \<Rightarrow> length (rows r)) (rows r1)"
proof -
  from run_Inr_steps [OF run] obtain b r1 where
    b: "cleaned_sorted ns labels asc (Some t) = Inr b"
    and c: "pandas_concat [res, Some b] = Inr r1" and p1: "p1 = upd r1" by blast
  from cleaned_sorted_rectangular [OF b rect] have "rectangular b" .
  from pandas_concat_again [OF c this] b p1 show ?thesis
    by (intro exI [of _ b] exI [of _ r1]
        exI [of _ "\<lparr>columns = columns r1,
          rows = rows r1 @ drop (case res of None \<Rightarrow> 0 | Some r \<Rightarrow> length (rows r)) (rows r1)\<rparr>"])
      simp
qed

text \<open>
  C10: a \<open>run\<close> that returns changes nothing of the processor but \<open>result\<close>; the input
  table is the one it was. So a second \<open>run\<close> on the same (rectangular) input table
  returns as well, keeps the columns of the result, and puts after the rows of the result
  exactly the rows that the first \<open>run\<close> had put after the rows it found.
\<close>

theorem run_leaves_dataset:
  "(CsvDataProcessor_run nargsort p = Inr p1 \<longrightarrow>
      dataset p1 = dataset p \<and> datasource p1 = datasource p \<and> separator p1 = separator p)
   \<and> (dataset p = Some t1 \<and> rectangular t1 \<and> CsvDataProcessor_run nargsort p = Inr p1 \<longrightarrow>
      (\<exists>r1 r2. p1 = p\<lparr>result := Some r1\<rparr>
         \<and> CsvDataProcessor_run nargsort p1 = Inr (p\<lparr>result := Some r2\<rparr>)
         \<and> columns r2 = columns r1
         \<and> rows r2 = rows r1 @ drop (case result p of None \<Rightarrow> 0 | Some r \<Rightarrow> length (rows r)) (rows r1)))
   \<and> (TxtDataProcessor_run nargsort q = Inr q1 \<longrightarrow>
      dataset q1 = dataset q \<and> datasource q1 = datasource q)
   \<and> (dataset q = Some t2 \<and> rectangular t2 \<and> TxtDataProcessor_run nargsort q = Inr q1 \<longrightarrow>
      (\<exists>r1 r2. q1 = q\<lparr>result := Some r1\<rparr>
         \<and> TxtDataProcessor_run nargsort q1 = Inr (q\<lparr>result := Some r2\<rparr>)
         \<and> columns r2 = columns r1
         \<and> rows r2 = rows r1 @ drop (case result q of None \<Rightarrow> 0 | Some r \<Rightarrow> length (rows r)) (rows r1)))
   \<and> (JSONDataProcessor_run nargsort j = Inr j1 \<longrightarrow>
      dataset j1 = dataset j \<and> datasource j1 = datasource j)
   \<and> (dataset j = Some t3 \<and> rectangular t3 \<and> JSONDataProcessor_run nargsort j = Inr j1 \<longrightarrow>
      (\<exists>r1 r2. j1 = j\<lparr>result := Some r1\<rparr>
         \<and> JSONDataProcessor_run nargsort j1 = Inr (j\<lparr>result := Some r2\<rparr>)
         \<and> columns r2 = columns r1
         \<and> rows r2 = rows r1 @ drop (case result j of None \<Rightarrow> 0 | Some r \<Rightarrow> length (rows r)) (rows r1)))"
proof -
  have f1: "CsvDataProcessor_run nargsort p = Inr p1 \<longrightarrow>
      dataset p1 = dataset p \<and> datasource p1 = datasource p \<and> separator p1 = separator p"
  proof
    assume run: "CsvDataProcessor_run nargsort p = Inr p1"
    from run_Inr_steps [OF run [unfolded Csv_run_cleaned_sorted]]
    show "dataset p1 = dataset p \<and> datasource p1 = datasource p \<and> separator p1 = separator p"
      by auto
  qed
  have f2: "dataset p = Some t1 \<and> rectangular t1 \<and> CsvDataProcessor_run nargsort p = Inr p1 \<longrightarrow>
      (\<exists>r1 r2. p1 = p\<lparr>result := Some r1\<rparr>
         \<and> CsvDataProcessor_run nargsort p1 = Inr (p\<lparr>result := Some r2\<rparr>)
         \<and> columns r2 = columns r1
         \<and> rows r2 = rows r1 @ drop (case result p of None \<Rightarrow> 0 | Some r \<Rightarrow> length (rows r)) (rows r1))"
  proof
    assume h: "dataset p = Some t1 \<and> rectangular t1 \<and> CsvDataProcessor_run nargsort p = Inr p1"
    then have ds: "dataset p = Some t1" and rect: "rectangular t1"
      and run: "CsvDataProcessor_run nargsort p = Inr p1" by simp_all
    have "(case cleaned_sorted nargsort [''dateAdded''] False (Some t1) of
          Inl e \<Rightarrow> Inl e
        | Inr b \<Rightarrow> (case pandas_concat [result p, Some b] of
                      Inl e \<Rightarrow> Inl e | Inr r \<Rightarrow> Inr (p\<lparr>result := Some r\<rparr>))) = Inr p1"
      using run unfolding Csv_run_cleaned_sorted ds .
    from run_again [OF this rect] obtain b r1 r2 where
      s: "p1 = p\<lparr>result := Some r1\<rparr>"
        "cleaned_sorted nargsort [''dateAdded''] False (Some t1) = Inr b"
        "pandas_concat [Some r1, Some b] = Inr r2"
        "columns r2 = columns r1"
        "rows r2 = rows r1 @ drop (case result p of None \<Rightarrow> 0 | Some r \<Rightarrow> length (rows r)) (rows r1)"
      by blast
    have "CsvDataProcessor_run nargsort p1 = Inr (p\<lparr>result := Some r2\<rparr>)"
      using ds s(1) s(2) s(3) by (simp add: Csv_run_cleaned_sorted)
    with s(1) s(4) s(5) show "\<exists>r1 r2. p1 = p\<lparr>result := Some r1\<rparr>
         \<and> CsvDataProcessor_run nargsort p1 = Inr (p\<lparr>result := Some r2\<rparr>)
         \<and> columns r2 = columns r1
         \<and> rows r2 = rows r1 @ drop (case result p of None \<Rightarrow> 0 | Some r \<Rightarrow> length (rows r)) (rows r1)"
      by blast
  qed
  have f3: "TxtDataProcessor_run nargsort q = Inr q1 \<longrightarrow>
      dataset q1 = dataset q \<and> datasource q1 = datasource q"
  proof
    assume run: "TxtDataProcessor_run nargsort q = Inr q1"
    from run_Inr_steps [OF run [unfolded Txt_run_cleaned_sorted]]
    show "dataset q1 = dataset q \<and> datasource q1 = datasource q"
      by auto
  qed
  have f4: "dataset q = Some t2 \<and> rectangular t2 \<and> TxtDataProcessor_run nargsort q = Inr q1 \<longrightarrow>
      (\<exists>r1 r2. q1 = q\<lparr>result := Some r1\<rparr>
         \<and> TxtDataProcessor_run nargsort q1 = Inr (q\<lparr>result := Some r2\<rparr>)
         \<and> columns r2 = columns r1
         \<and> rows r2 = rows r1 @ drop (case result q of None \<Rightarrow> 0 | Some r \<Rightarrow> length (rows r)) (rows r1))"
  proof
    assume h: "dataset q = Some t2 \<and> rectangular t2 \<and> TxtDataProcessor_run nargsort q = Inr q1"
    then have ds: "dataset q = Some t2" and rect: "rectangular t2"
      and run: "TxtDataProcessor_run nargsort q = Inr q1" by simp_all
    have "(case cleaned_sorted nargsort [''dateAdded''] False (Some t2) of
          Inl e \<Rightarrow> Inl e
        | Inr b \<Rightarrow> (case pandas_concat [result q, Some b] of
                      Inl e \<Rightarrow> Inl e | Inr r \<Rightarrow> Inr (q\<lparr>result := Some r\<rparr>))) = Inr q1"
      using run unfolding Txt_run_cleaned_sorted ds .
    from run_again [OF this rect] obtain b r1 r2 where
      s: "q1 = q\<lparr>result := Some r1\<rparr>"
        "cleaned_sorted nargsort [''dateAdded''] False (Some t2) = Inr b"
        "pandas_concat [Some r1, Some b] = Inr r2"
        "columns r2 = columns r1"
        "rows r2 = rows r1 @ drop (case result q of None \<Rightarrow> 0 | Some r \<Rightarrow> length (rows r)) (rows r1)"
      by blast
    have "TxtDataProcessor_run nargsort q1 = Inr (q\<lparr>result := Some r2\<rparr>)"
      using ds s(1) s(2) s(3) by (simp add: Txt_run_cleaned_sorted)
    with s(1) s(4) s(5) show "\<exists>r1 r2. q1 = q\<lparr>result := Some r1\<rparr>
         \<and> TxtDataProcessor_run nargsort q1 = Inr (q\<lparr>result := Some r2\<rparr>)
         \<and> columns r2 = columns r1
         \<and> rows r2 = rows r1 @ drop (case result q of None \<Rightarrow> 0 | Some r \<Rightarrow> length (rows r)) (rows r1)"
      by blast
  qed
  have f5: "JSONDataProcessor_run nargsort j = Inr j1 \<longrightarrow>
      dataset j1 = dataset j \<and> datasource j1 = datasource j"
  proof
    assume run: "JSONDataProcessor_run nargsort j = Inr j1"
    from run_Inr_steps [OF run [unfolded JSON_run_cleaned_sorted]]
    show "dataset j1 = dataset j \<and> datasource j1 = datasource j"
      by auto
  qed
  have f6: "dataset j = Some t3 \<and> rectangular t3 \<and> JSONDataProcessor_run nargsort j = Inr j1 \<longrightarrow>
      (\<exists>r1 r2. j1 = j\<lparr>result := Some r1\<rparr>
         \<and> JSONDataProcessor_run nargsort j1 = Inr (j\<lparr>result := Some r2\<rparr>)
         \<and> columns r2 = columns r1
         \<and> rows r2 = rows r1 @ drop (case result j of None \<Rightarrow> 0 | Some r \<Rightarrow> length (rows r)) (rows r1))"
  proof
    assume h: "dataset j = Some t3 \<and> rectangular t3 \<and> JSONDataProcessor_run nargsort j = Inr j1"
    then have ds: "dataset j = Some t3" and rect: "rectangular t3"
      and run: "JSONDataProcessor_run nargsort j = Inr j1" by simp_all
    have "(case cleaned_sorted nargsort [''dateAdded'', ''avgRating''] True (Some t3) of
          Inl e \<Rightarrow> Inl e
        | Inr b \<Rightarrow> (case pandas_concat [result j, Some b] of
                      Inl e \<Rightarrow> Inl e | Inr r \<Rightarrow> Inr (j\<lparr>result := Some r\<rparr>))) = Inr j1"
      using run unfolding JSON_run_cleaned_sorted ds .
    from run_again [OF this rect] obtain b r1 r2 where
      s: "j1 = j\<lparr>result := Some r1\<rparr>"
        "cleaned_sorted nargsort [''dateAdded'', ''avgRating''] True (Some t3) = Inr b"
        "pandas_concat [Some r1, Some b] = Inr r2"
        "columns r2 = columns r1"
        "rows r2 = rows r1 @ drop (case result j of None \<Rightarrow> 0 | Some r \<Rightarrow> length (rows r)) (rows r1)"
      by blast
    have "JSONDataProcessor_run nargsort j1 = Inr (j\<lparr>result := Some r2\<rparr>)"
      using ds s(1) s(2) s(3) by (simp add: JSON_run_cleaned_sorted)
    with s(1) s(4) s(5) show "\<exists>r1 r2. j1 = j\<lparr>result := Some r1\<rparr>
         \<and> JSONDataProcessor_run nargsort j1 = Inr (j\<lparr>result := Some r2\<rparr>)
         \<and> columns r2 = columns r1
         \<and> rows r2 = rows r1 @ drop (case result j of None \<Rightarrow> 0 | Some r \<Rightarrow> length (rows r)) (rows r1)"
      by blast
  qed
  show ?thesis
    by (rule conjI [OF f1 conjI [OF f2 conjI [OF f3 conjI [OF f4 conjI [OF f5 f6]]]]])
qed

theorem run_leaves_dataset_witness:
  "rectangular films \<and> rectangular rated_films
   \<and> CsvDataProcessor_run insertion_nargsort
        \<lparr>datasource = ''f.csv'', dataset = Some films, result = None, separator = '';''\<rparr>
      = Inr \<lparr>datasource = ''f.csv'', dataset = Some films, result = (Some \<lparr>columns = [''title'', ''directedBy''],
            rows = [[Some 3, Some 5], [Some 2, Some 5], [Some 1, None]]\<rparr>), separator = '';''\<rparr>
   \<and> CsvDataProcessor_run insertion_nargsort
        \<lparr>datasource = ''f.csv'', dataset = Some films, result = (Some \<lparr>columns = [''title'', ''directedBy''],
            rows = [[Some 3, Some 5], [Some 2, Some 5], [Some 1, None]]\<rparr>), separator = '';''\<rparr>
      = Inr \<lparr>datasource = ''f.csv'', dataset = Some films, result = (Some \<lparr>columns = [''title'', ''directedBy''],
            rows = [[Some 3, Some 5], [Some 2, Some 5], [Some 1, None], [Some 3, Some 5], [Some 2, Some 5], [Some 1, None]]\<rparr>), separator = '';''\<rparr>
   \<and> TxtDataProcessor_run insertion_nargsort
        \<lparr>datasource = ''f.txt'', dataset = Some films, result = (Some \<lparr>columns = [''title''],
            rows = [[Some 9]]\<rparr>)\<rparr>
      = Inr \<lparr>datasource = ''f.txt'', dataset = Some films, result = (Some \<lparr>columns = [''title'', ''directedBy''],
            rows = [[Some 9, None], [Some 3, Some 5], [Some 2, Some 5], [Some 1, None]]\<rparr>)\<rparr>
   \<and> TxtDataProcessor_run insertion_nargsort
        \<lparr>datasource = ''f.txt'', dataset = Some films, result = (Some \<lparr>columns = [''title'', ''directedBy''],
            rows = [[Some 9, None], [Some 3, Some 5], [Some 2, Some 5], [Some 1, None]]\<rparr>)\<rparr>
      = Inr \<lparr>datasource = ''f.txt'', dataset = Some films, result = (Some \<lparr>columns = [''title'', ''directedBy''],
            rows = [[Some 9, None], [Some 3, Some 5], [Some 2, Some 5], [Some 1, None], [Some 3, Some 5], [Some 2, Some 5], [Some 1, None]]\<rparr>)\<rparr>
   \<and> JSONDataProcessor_run insertion_nargsort
        \<lparr>datasource = ''f.json'', dataset = Some rated_films, result = (Some \<lparr>columns = [''year'', ''title''],
            rows = [[Some 9, Some 8]]\<rparr>)\<rparr>
      = Inr \<lparr>datasource = ''f.json'', dataset = Some rated_films, result = (Some \<lparr>columns = [''year'', ''title'', ''directedBy''],
            rows = [[Some 9, Some 8, None], [None, Some 1, Some 4], [None, Some 2, Some 5], [None, None, Some 5]]\<rparr>)\<rparr>
   \<and> JSONDataProcessor_run insertion_nargsort
        \<lparr>datasource = ''f.json'', dataset = Some rated_films, result = (Some \<lparr>columns = [''year'', ''title'', ''directedBy''],
            rows = [[Some 9, Some 8, None], [None, Some 1, Some 4], [None, Some 2, Some 5], [None, None, Some 5]]\<rparr>)\<rparr>
      = Inr \<lparr>datasource = ''f.json'', dataset = Some rated_films, result = (Some \<lparr>columns = [''year'', ''title'', ''directedBy''],
            rows = [[Some 9, Some 8, None], [None, Some 1, Some 4], [None, Some 2, Some 5], [None, None, Some 5], [None, Some 1, Some 4], [None, Some 2, Some 5], [None, None, Some 5]]\<rparr>)\<rparr>"
proof -
  have rect: "rectangular films \<and> rectangular rated_films"
    by (simp add: rectangular_def films_def rated_films_def)
  have e0: "CsvDataProcessor_run insertion_nargsort
        \<lparr>datasource = ''f.csv'', dataset = Some films, result = None, separator = '';''\<rparr>
      = Inr \<lparr>datasource = ''f.csv'', dataset = Some films, result = (Some \<lparr>columns = [''title'', ''directedBy''],
            rows = [[Some 3, Some 5], [Some 2, Some 5], [Some 1, None]]\<rparr>), separator = '';''\<rparr>"
    by code_simp
  have e1: "CsvDataProcessor_run insertion_nargsort
        \<lparr>datasource = ''f.csv'', dataset = Some films, result = (Some \<lparr>columns = [''title'', ''directedBy''],
            rows = [[Some 3, Some 5], [Some 2, Some 5], [Some 1, None]]\<rparr>), separator = '';''\<rparr>
      = Inr \<lparr>datasource = ''f.csv'', dataset = Some films, result = (Some \<lparr>columns = [''title'', ''directedBy''],
            rows = [[Some 3, Some 5], [Some 2, Some 5], [Some 1, None], [Some 3, Some 5], [Some 2, Some 5], [Some 1, None]]\<rparr>), separator = '';''\<rparr>"
    by code_simp
  have e2: "TxtDataProcessor_run insertion_nargsort
        \<lparr>datasource = ''f.txt'', dataset = Some films, result = (Some \<lparr>columns = [''title''],
            rows = [[Some 9]]\<rparr>)\<rparr>
      = Inr \<lparr>datasource = ''f.txt'', dataset = Some films, result = (Some \<lparr>columns = [''title'', ''directedBy''],
            rows = [[Some 9, None], [Some 3, Some 5], [Some 2, Some 5], [Some 1, None]]\<rparr>)\<rparr>"
    by code_simp
  have e3: "TxtDataProcessor_run insertion_nargsort
        \<lparr>datasource = ''f.txt'', dataset = Some films, result = (Some \<lparr>columns = [''title'', ''directedBy''],
            rows = [[Some 9, None], [Some 3, Some 5], [Some 2, Some 5], [Some 1, None]]\<rparr>)\<rparr>
      = Inr \<lparr>datasource = ''f.txt'', dataset = Some films, result = (Some \<lparr>columns = [''title'', ''directedBy''],
            rows = [[Some 9, None], [Some 3, Some 5], [Some 2, Some 5], [Some 1, None], [Some 3, Some 5], [Some 2, Some 5], [Some 1, None]]\<rparr>)\<rparr>"
    by code_simp
  have e4: "JSONDataProcessor_run insertion_nargsort
        \<lparr>datasource = ''f.json'', dataset = Some rated_films, result = (Some \<lparr>columns = [''year'', ''title''],
            rows = [[Some 9, Some 8]]\<rparr>)\<rparr>
      = Inr \<lparr>datasource = ''f.json'', dataset = Some rated_films, result = (Some \<lparr>columns = [''year'', ''title'', ''directedBy''],
            rows = [[Some 9, Some 8, None], [None, Some 1, Some 4], [None, Some 2, Some 5], [None, None, Some 5]]\<rparr>)\<rparr>"
    by code_simp
  have e5: "JSONDataProcessor_run insertion_nargsort
        \<lparr>datasource = ''f.json'', dataset = Some rated_films, result = (Some \<lparr>columns = [''year'', ''title'', ''directedBy''],
            rows = [[Some 9, Some 8, None], [None, Some 1, Some 4], [None, Some 2, Some 5], [None, None, Some 5]]\<rparr>)\<rparr>
      = Inr \<lparr>datasource = ''f.json'', dataset = Some rated_films, result = (Some \<lparr>columns = [''year'', ''title'', ''directedBy''],
            rows = [[Some 9, Some 8, None], [None, Some 1, Some 4], [None, Some 2, Some 5], [None, None, Some 5], [None, Some 1, Some 4], [None, Some 2, Some 5], [None, None, Some 5]]\<rparr>)\<rparr>"
    by code_simp
  note inst = run_leaves_dataset [of insertion_nargsort
      "\<lparr>datasource = ''f.csv'', dataset = Some films, result = None, separator = '';''\<rparr>"
      "\<lparr>datasource = ''f.csv'', dataset = Some films, result = (Some \<lparr>columns = [''title'', ''directedBy''],
            rows = [[Some 3, Some 5], [Some 2, Some 5], [Some 1, None]]\<rparr>), separator = '';''\<rparr>"
      films
      "\<lparr>datasource = ''f.txt'', dataset = Some films, result = (Some \<lparr>columns = [''title''],
            rows = [[Some 9]]\<rparr>)\<rparr>"
      "\<lparr>datasource = ''f.txt'', dataset = Some films, result = (Some \<lparr>columns = [''title'', ''directedBy''],
            rows = [[Some 9, None], [Some 3, Some 5], [Some 2, Some 5], [Some 1, None]]\<rparr>)\<rparr>"
      films
      "\<lparr>datasource = ''f.json'', dataset = Some rated_films, result = (Some \<lparr>columns = [''year'', ''title''],
            rows = [[Some 9, Some 8]]\<rparr>)\<rparr>"
      "\<lparr>datasource = ''f.json'', dataset = Some rated_films, result = (Some \<lparr>columns = [''year'', ''title'', ''directedBy''],
            rows = [[Some 9, Some 8, None], [None, Some 1, Some 4], [None, Some 2, Some 5], [None, None, Some 5]]\<rparr>)\<rparr>"
      rated_films]
  show ?thesis using inst rect e0 e1 e2 e3 e4 e5 by simp
qed

end
